theory Spec2Isabelle
  imports Complex_Main "HOL-Library.Multiset" "HOL-Library.AList"
begin

section \<open>Heredity: exact inference over a pedigree (heredity.py)\<close>

text \<open>
  Conventions of the embedding.
  \<^item> A Python \<open>float\<close> is an IEEE 754 binary64 number: a value of \<open>pyfloat\<close>, and every
    arithmetic operation rounds its exact result to the nearest double, ties to even. The
    two zeros are not told apart: they compare equal and the program never divides by a
    value it has not compared with zero. A Python \<open>int\<close> that meets a float (\<open>0\<close>, \<open>1\<close>,
    \<open>2\<close>) is the float of the same value.
  \<^item> A Python \<open>set\<close> of names is the list of its elements, without repetitions, in the
    order in which a \<open>for\<close> loop visits them; \<open>x in s\<close> is \<open>x \<in> set s\<close>. Python does not
    fix that order; the model takes the order of the dictionary the names come from.
  \<^item> A \<open>dict\<close> keyed by names is an association list in insertion order; \<open>d[k]\<close> is
    \<open>map_of d k\<close>, and a missing key is the error \<open>KeyError\<close>.
  \<^item> An exception is a value \<open>Inl e\<close> of a sum type.
\<close>

datatype error = TypeError | KeyError | ZeroDivisionError

subsection \<open>Floating-point numbers\<close>

text \<open>A double is finite, infinite or not a number. \<open>Finite x\<close> is written for every real
  \<open>x\<close>; the doubles are those that rounding leaves unchanged.\<close>

datatype pyfloat = Finite real | PlusInf | MinusInf | NaN

text \<open>\<open>pow2 e\<close> is \<open>2\<close> to the power \<open>e\<close>.\<close>

definition pow2 :: "int \<Rightarrow> real" where
  "pow2 e = (if 0 \<le> e then 2 ^ nat e else 1 / 2 ^ nat (- e))"

text \<open>The exponent of the last mantissa bit of the double nearest to \<open>x \<ge> 0\<close>: the \<open>e\<close>
  between \<open>-1074\<close> and \<open>971\<close> with \<open>2 ^ (e + 52) \<le> x < 2 ^ (e + 53)\<close>, the least one for a
  subnormal \<open>x\<close> and the greatest one beyond the range. It is searched from \<open>0\<close>, upwards or
  downwards.\<close>

function exp_up :: "int \<Rightarrow> real \<Rightarrow> int" where
  "exp_up e x = (if e < 971 \<and> pow2 (e + 53) \<le> x then exp_up (e + 1) x else e)"
  by pat_completeness auto
termination
  by (relation "measure (\<lambda>(e, x). nat (971 - e))") auto

function exp_down :: "int \<Rightarrow> real \<Rightarrow> int" where
  "exp_down e x = (if - 1074 < e \<and> x < pow2 (e + 52) then exp_down (e - 1) x else e)"
  by pat_completeness auto
termination
  by (relation "measure (\<lambda>(e, x). nat (e + 1074))") auto

declare exp_up.simps [simp del] exp_down.simps [simp del]

definition exponent :: "real \<Rightarrow> int" where
  "exponent x = (if pow2 53 \<le> x then exp_up 0 x else exp_down 0 x)"

text \<open>The nearest integer, a tie going to the even one.\<close>

definition round_even :: "real \<Rightarrow> int" where
  "round_even y =
     (let n = \<lfloor>y\<rfloor>; r = y - of_int n
      in if r < 1 / 2 then n else if 1 / 2 < r then n + 1 else if even n then n else n + 1)"

text \<open>Rounding to 53 bits with an exponent that is bounded below and, for now, not above.\<close>

definition rd :: "real \<Rightarrow> real" where
  "rd x = (let e = exponent \<bar>x\<bar> in of_int (round_even (x / pow2 e)) * pow2 e)"

text \<open>The largest double, and the double that an exact result becomes: an infinity when the
  rounded value is beyond the largest double.\<close>

definition max_double :: real where
  "max_double = (2 ^ 53 - 1) * 2 ^ 971"

definition fl :: "real \<Rightarrow> pyfloat" where
  "fl x = (let y = rd x in
           if max_double < y then PlusInf else if y < - max_double then MinusInf else Finite y)"

text \<open>A decimal literal of the source, such as \<open>0.01\<close>, denotes the double nearest to it.\<close>

definition lit :: "real \<Rightarrow> pyfloat" where
  "lit q = fl q"

text \<open>\<open>a + b\<close>, \<open>a - b\<close> and \<open>a * b\<close> on floats: they never raise.\<close>

fun fadd :: "pyfloat \<Rightarrow> pyfloat \<Rightarrow> pyfloat" where
  "fadd (Finite x) (Finite y) = fl (x + y)"
| "fadd NaN b = NaN"
| "fadd a NaN = NaN"
| "fadd PlusInf MinusInf = NaN"
| "fadd MinusInf PlusInf = NaN"
| "fadd PlusInf b = PlusInf"
| "fadd a PlusInf = PlusInf"
| "fadd MinusInf b = MinusInf"
| "fadd a MinusInf = MinusInf"

fun fsub :: "pyfloat \<Rightarrow> pyfloat \<Rightarrow> pyfloat" where
  "fsub (Finite x) (Finite y) = fl (x - y)"
| "fsub NaN b = NaN"
| "fsub a NaN = NaN"
| "fsub PlusInf PlusInf = NaN"
| "fsub MinusInf MinusInf = NaN"
| "fsub PlusInf b = PlusInf"
| "fsub a PlusInf = MinusInf"
| "fsub MinusInf b = MinusInf"
| "fsub a MinusInf = PlusInf"

text \<open>The sign of a product or quotient with an infinity: \<open>inf_of True\<close> is \<open>+inf\<close>.\<close>

definition inf_of :: "bool \<Rightarrow> pyfloat" where
  "inf_of positive = (if positive then PlusInf else MinusInf)"

fun fmul :: "pyfloat \<Rightarrow> pyfloat \<Rightarrow> pyfloat" where
  "fmul (Finite x) (Finite y) = fl (x * y)"
| "fmul NaN b = NaN"
| "fmul a NaN = NaN"
| "fmul (Finite x) PlusInf = (if x = 0 then NaN else inf_of (0 < x))"
| "fmul (Finite x) MinusInf = (if x = 0 then NaN else inf_of (x < 0))"
| "fmul PlusInf (Finite y) = (if y = 0 then NaN else inf_of (0 < y))"
| "fmul MinusInf (Finite y) = (if y = 0 then NaN else inf_of (y < 0))"
| "fmul PlusInf PlusInf = PlusInf"
| "fmul PlusInf MinusInf = MinusInf"
| "fmul MinusInf PlusInf = MinusInf"
| "fmul MinusInf MinusInf = PlusInf"

text \<open>The quotient by a divisor that is not zero, and \<open>a / b\<close>, which raises
  \<open>ZeroDivisionError\<close> when \<open>b\<close> is zero.\<close>

fun fquot :: "pyfloat \<Rightarrow> pyfloat \<Rightarrow> pyfloat" where
  "fquot (Finite x) (Finite y) = fl (x / y)"
| "fquot NaN b = NaN"
| "fquot a NaN = NaN"
| "fquot (Finite x) b = Finite 0"
| "fquot PlusInf (Finite y) = inf_of (0 < y)"
| "fquot MinusInf (Finite y) = inf_of (y < 0)"
| "fquot a b = NaN"

definition fdiv :: "pyfloat \<Rightarrow> pyfloat \<Rightarrow> error + pyfloat" where
  "fdiv a b = (if b = Finite 0 then Inl ZeroDivisionError else Inr (fquot a b))"

text \<open>\<open>x ** 2\<close>: the correctly rounded square, which is what the platform's \<open>pow\<close> returns
  for the three values the source squares.\<close>

definition fpow2 :: "pyfloat \<Rightarrow> pyfloat" where
  "fpow2 a = fmul a a"

text \<open>\<open>a > 0\<close> on floats.\<close>

definition is_positive :: "pyfloat \<Rightarrow> bool" where
  "is_positive a = (case a of Finite x \<Rightarrow> 0 < x | PlusInf \<Rightarrow> True | _ \<Rightarrow> False)"

subsection \<open>PROBS\<close>

text \<open>The three tables of \<open>PROBS\<close>; the source reads them at the literal keys 0, 1, 2 only.\<close>

definition PROBS_gene :: "nat \<Rightarrow> pyfloat" where
  "PROBS_gene g = (if g = 2 then lit 0.01 else if g = 1 then lit 0.03 else lit 0.96)"

definition PROBS_trait :: "nat \<Rightarrow> bool \<Rightarrow> pyfloat" where
  "PROBS_trait g t =
     (if g = 2 then (if t then lit 0.65 else lit 0.35)
      else if g = 1 then (if t then lit 0.56 else lit 0.44)
      else (if t then lit 0.01 else lit 0.99))"

definition PROBS_mutation :: pyfloat where
  "PROBS_mutation = lit 0.01"

subsection \<open>load_data\<close>

text \<open>One entry of the dictionary that \<open>load_data\<close> builds.\<close>

record person =
  name :: string
  mother :: "string option"
  father :: "string option"
  trait :: "bool option"

type_synonym people = "(string \<times> person) list"

text \<open>A row as \<open>csv.DictReader\<close> yields it: the four columns, as strings.\<close>

record csv_row =
  row_name :: string
  row_mother :: string
  row_father :: string
  row_trait :: string

text \<open>\<open>s or None\<close>: the empty string is falsy.\<close>

definition or_None :: "string \<Rightarrow> string option" where
  "or_None s = (if s = [] then None else Some s)"

definition load_row :: "csv_row \<Rightarrow> people \<Rightarrow> people" where
  "load_row row data =
     AList.update (row_name row)
       \<lparr> name = row_name row,
         mother = or_None (row_mother row),
         father = or_None (row_father row),
         trait = (if row_trait row = ''1'' then Some True
                  else if row_trait row = ''0'' then Some False else None) \<rparr>
       data"

definition load_data :: "csv_row list \<Rightarrow> people" where
  "load_data rows = fold load_row rows []"

subsection \<open>powerset\<close>

text \<open>\<open>itertools.combinations(s, r)\<close>: the subsequences of length \<open>r\<close>, in the
  lexicographic order of their positions.\<close>

fun combinations :: "'a list \<Rightarrow> nat \<Rightarrow> 'a list list" where
  "combinations xs 0 = [[]]"
| "combinations [] (Suc r) = []"
| "combinations (x # xs) (Suc r) =
     map ((#) x) (combinations xs r) @ combinations xs (Suc r)"

definition powerset :: "'a list \<Rightarrow> 'a list list" where
  "powerset s = concat (map (combinations s) [0 ..< length s + 1])"

text \<open>Set difference \<open>a - b\<close>.\<close>

definition set_minus :: "'a list \<Rightarrow> 'a list \<Rightarrow> 'a list" where
  "set_minus a b = filter (\<lambda>x. x \<notin> set b) a"

subsection \<open>joint_probability\<close>

text \<open>\<open>parent in s\<close>, where the parent is a name or \<open>None\<close>; \<open>None\<close> is in no set of
  names.\<close>

definition isin :: "string option \<Rightarrow> string list \<Rightarrow> bool" where
  "isin parent s = (case parent of None \<Rightarrow> False | Some x \<Rightarrow> x \<in> set s)"

text \<open>\<open>1 - PROBS["mutation"]\<close>, which all three tables use.\<close>

definition one_minus_mutation :: pyfloat where
  "one_minus_mutation = fsub (Finite 1) PROBS_mutation"

text \<open>The value of \<open>probability\<close> before the trait is taken into account, for a person of
  the loop over \<open>two_genes\<close> (lines 156-178). Products are taken from left to right, as
  Python does.\<close>

definition two_genes_factor ::
  "string option \<Rightarrow> string option \<Rightarrow> string list \<Rightarrow> string list \<Rightarrow> string list
   \<Rightarrow> error + pyfloat"
where
  "two_genes_factor mo fa one_gene two_genes set_no_genes =
     (if mo = None \<and> fa = None then Inr (PROBS_gene 2)
      else if isin mo two_genes \<and> isin fa two_genes
        then Inr (fmul (Finite 2) one_minus_mutation)
      else if isin mo set_no_genes \<and> isin fa set_no_genes then Inr (fpow2 PROBS_mutation)
      else if isin mo one_gene \<and> isin fa one_gene
        then Inr (fmul (fmul (lit 0.5) (Finite 2)) one_minus_mutation)
      else if isin mo one_gene \<and> isin fa set_no_genes
        then Inr (fmul (fmul (lit 0.5) one_minus_mutation) PROBS_mutation)
      else if isin fa one_gene \<and> isin mo set_no_genes
        then Inr (fmul (fmul (lit 0.5) one_minus_mutation) PROBS_mutation)
      else if isin mo two_genes \<and> isin fa set_no_genes
        then Inr (fmul one_minus_mutation PROBS_mutation)
      else if isin fa two_genes \<and> isin mo set_no_genes
        then Inr (fmul one_minus_mutation PROBS_mutation)
      else if isin mo one_gene \<and> isin fa two_genes
        then Inr (fmul (lit 0.5) (fpow2 one_minus_mutation))
      else if isin fa one_gene \<and> isin mo two_genes
        then Inr (fmul (lit 0.5) (fpow2 one_minus_mutation))
      else Inl TypeError)"

text \<open>The same for the loop over \<open>one_gene\<close> (lines 194-216).\<close>

definition one_gene_factor ::
  "string option \<Rightarrow> string option \<Rightarrow> string list \<Rightarrow> string list \<Rightarrow> string list
   \<Rightarrow> error + pyfloat"
where
  "one_gene_factor mo fa one_gene two_genes set_no_genes =
     (if mo = None \<and> fa = None then Inr (PROBS_gene 1)
      else if isin mo two_genes \<and> isin fa two_genes then Inr (Finite 1)
      else if isin mo set_no_genes \<and> isin fa set_no_genes
        then Inr (fmul (fmul PROBS_mutation one_minus_mutation) (Finite 2))
      else if isin mo one_gene \<and> isin fa set_no_genes
        then Inr (fadd (fmul (fmul (lit 0.5) one_minus_mutation) one_minus_mutation)
                       (fmul (fmul (lit 0.5) one_minus_mutation) PROBS_mutation))
      else if isin fa one_gene \<and> isin mo set_no_genes
        then Inr (fadd (fmul (fmul (lit 0.5) one_minus_mutation) one_minus_mutation)
                       (fmul (fmul (lit 0.5) one_minus_mutation) PROBS_mutation))
      else if isin mo two_genes \<and> isin fa set_no_genes
        then Inr (fadd (fpow2 one_minus_mutation) (fpow2 PROBS_mutation))
      else if isin fa two_genes \<and> isin mo set_no_genes
        then Inr (fadd (fpow2 one_minus_mutation) (fpow2 PROBS_mutation))
      else if isin mo one_gene \<and> isin fa one_gene
        then Inr (fmul (fpow2 (fmul (lit 0.5) one_minus_mutation)) (Finite 2))
      else if isin mo one_gene \<and> isin fa two_genes
        then Inr (fmul (fmul (fpow2 one_minus_mutation) (lit 0.5)) (Finite 2))
      else if isin mo two_genes \<and> isin fa one_gene
        then Inr (fmul (fmul (fpow2 one_minus_mutation) (lit 0.5)) (Finite 2))
      else Inl TypeError)"

text \<open>The same for the loop over \<open>set_no_genes\<close> (lines 230-252).\<close>

definition no_genes_factor ::
  "string option \<Rightarrow> string option \<Rightarrow> string list \<Rightarrow> string list \<Rightarrow> string list
   \<Rightarrow> error + pyfloat"
where
  "no_genes_factor mo fa one_gene two_genes set_no_genes =
     (if mo = None \<and> fa = None then Inr (PROBS_gene 0)
      else if isin mo two_genes \<and> isin fa two_genes then Inr (fpow2 PROBS_mutation)
      else if isin mo set_no_genes \<and> isin fa set_no_genes then Inr (fpow2 one_minus_mutation)
      else if isin mo one_gene \<and> isin fa set_no_genes
        then Inr (fmul (lit 0.5) one_minus_mutation)
      else if isin fa one_gene \<and> isin mo set_no_genes
        then Inr (fmul (lit 0.5) one_minus_mutation)
      else if isin mo two_genes \<and> isin fa set_no_genes
        then Inr (fmul PROBS_mutation one_minus_mutation)
      else if isin fa two_genes \<and> isin mo set_no_genes
        then Inr (fmul PROBS_mutation one_minus_mutation)
      else if isin mo one_gene \<and> isin fa one_gene
        then Inr (fpow2 (fmul (lit 0.5) one_minus_mutation))
      else if isin mo one_gene \<and> isin fa two_genes
        then Inr (fmul (fmul PROBS_mutation (lit 0.5)) one_minus_mutation)
      else if isin mo two_genes \<and> isin fa one_gene
        then Inr (fmul (fmul PROBS_mutation (lit 0.5)) one_minus_mutation)
      else Inl TypeError)"

text \<open>The three loops differ in the table of parent cases and in the key \<open>g\<close> of
  \<open>PROBS\<close> they read; \<open>g\<close> selects the loop: 2 for \<open>two_genes\<close>, 1 for \<open>one_gene\<close>, 0
  for \<open>set_no_genes\<close>.\<close>

definition gene_factor ::
  "nat \<Rightarrow> string option \<Rightarrow> string option \<Rightarrow> string list \<Rightarrow> string list \<Rightarrow> string list
   \<Rightarrow> error + pyfloat"
where
  "gene_factor g mo fa one_gene two_genes set_no_genes =
     (if g = 2 then two_genes_factor mo fa one_gene two_genes set_no_genes
      else if g = 1 then one_gene_factor mo fa one_gene two_genes set_no_genes
      else no_genes_factor mo fa one_gene two_genes set_no_genes)"

text \<open>The six running products of \<open>joint_probability\<close>, and the lines it has printed.\<close>

record jp_state =
  prob_two_genes_with_trait :: pyfloat
  prob_two_genes_without_trait :: pyfloat
  prob_one_gene_with_trait :: pyfloat
  prob_one_gene_without_trait :: pyfloat
  prob_no_genes_with_trait :: pyfloat
  prob_no_genes_without_trait :: pyfloat
  printed :: "string list"

text \<open>\<open>prob_..._with_trait *= probability\<close> and \<open>prob_..._without_trait *= probability\<close>
  of loop \<open>g\<close>.\<close>

definition mul_with_trait :: "nat \<Rightarrow> jp_state \<Rightarrow> pyfloat \<Rightarrow> jp_state" where
  "mul_with_trait g st probability =
     (if g = 2
        then st\<lparr>prob_two_genes_with_trait := fmul (prob_two_genes_with_trait st) probability\<rparr>
      else if g = 1
        then st\<lparr>prob_one_gene_with_trait := fmul (prob_one_gene_with_trait st) probability\<rparr>
      else st\<lparr>prob_no_genes_with_trait := fmul (prob_no_genes_with_trait st) probability\<rparr>)"

definition mul_without_trait :: "nat \<Rightarrow> jp_state \<Rightarrow> pyfloat \<Rightarrow> jp_state" where
  "mul_without_trait g st probability =
     (if g = 2
        then st\<lparr>prob_two_genes_without_trait :=
                   fmul (prob_two_genes_without_trait st) probability\<rparr>
      else if g = 1
        then st\<lparr>prob_one_gene_without_trait :=
                   fmul (prob_one_gene_without_trait st) probability\<rparr>
      else st\<lparr>prob_no_genes_without_trait :=
                fmul (prob_no_genes_without_trait st) probability\<rparr>)"

text \<open>One of the three \<open>for person in ...\<close> loops: the list is the set the loop runs
  over.\<close>

fun person_loop ::
  "people \<Rightarrow> string list \<Rightarrow> string list \<Rightarrow> string list \<Rightarrow> string list \<Rightarrow> string list
   \<Rightarrow> nat \<Rightarrow> string list \<Rightarrow> jp_state \<Rightarrow> error + jp_state"
where
  "person_loop people one_gene two_genes set_no_genes have_trait set_no_trait g [] st = Inr st"
| "person_loop people one_gene two_genes set_no_genes have_trait set_no_trait g (person # rest) st =
     (case map_of people person of
        None \<Rightarrow> Inl KeyError
      | Some r \<Rightarrow>
          (case gene_factor g (mother r) (father r) one_gene two_genes set_no_genes of
             Inl e \<Rightarrow> Inl e
           | Inr probability \<Rightarrow>
               if person \<in> set have_trait then
                 person_loop people one_gene two_genes set_no_genes have_trait set_no_trait g rest
                   (mul_with_trait g st (fmul probability (PROBS_trait g True)))
               else if person \<in> set set_no_trait then
                 person_loop people one_gene two_genes set_no_genes have_trait set_no_trait g rest
                   (mul_without_trait g st (fmul probability (PROBS_trait g False)))
               else
                 person_loop people one_gene two_genes set_no_genes have_trait set_no_trait g rest
                   (st\<lparr>printed := printed st @ [''Error'']\<rparr>)))"

definition jp_init :: jp_state where
  "jp_init =
     \<lparr> prob_two_genes_with_trait = Finite 1, prob_two_genes_without_trait = Finite 1,
       prob_one_gene_with_trait = Finite 1, prob_one_gene_without_trait = Finite 1,
       prob_no_genes_with_trait = Finite 1, prob_no_genes_without_trait = Finite 1,
       printed = [] \<rparr>"

text \<open>The value returned at line 264, the product taken from left to right.\<close>

definition jp_result :: "jp_state \<Rightarrow> pyfloat" where
  "jp_result st =
     fmul (fmul (fmul (fmul (fmul
       (prob_no_genes_without_trait st) (prob_no_genes_with_trait st))
       (prob_one_gene_with_trait st)) (prob_one_gene_without_trait st))
       (prob_two_genes_with_trait st)) (prob_two_genes_without_trait st)"

text \<open>\<open>joint_probability\<close> returns its value together with the lines it printed, or raises.\<close>

definition joint_probability ::
  "people \<Rightarrow> string list \<Rightarrow> string list \<Rightarrow> string list \<Rightarrow> error + (pyfloat \<times> string list)"
where
  "joint_probability people one_gene two_genes have_trait =
     (let set_people = map fst people;
          set_no_genes = set_minus (set_minus set_people one_gene) two_genes;
          set_no_trait = set_minus set_people have_trait
      in case person_loop people one_gene two_genes set_no_genes have_trait set_no_trait
                2 two_genes jp_init of
           Inl e \<Rightarrow> Inl e
         | Inr st1 \<Rightarrow>
        (case person_loop people one_gene two_genes set_no_genes have_trait set_no_trait
                1 one_gene st1 of
           Inl e \<Rightarrow> Inl e
         | Inr st2 \<Rightarrow>
        (case person_loop people one_gene two_genes set_no_genes have_trait set_no_trait
                0 set_no_genes st2 of
           Inl e \<Rightarrow> Inl e
         | Inr st3 \<Rightarrow> Inr (jp_result st3, printed st3))))"

subsection \<open>update\<close>

text \<open>\<open>probabilities[person]\<close>: the three buckets of \<open>"gene"\<close> and the two of \<open>"trait"\<close>.\<close>

record belief =
  gene2 :: pyfloat
  gene1 :: pyfloat
  gene0 :: pyfloat
  trait_True :: pyfloat
  trait_False :: pyfloat

type_synonym probabilities = "(string \<times> belief) list"

text \<open>The body of the loop of \<open>update\<close>, for one person; \<open>x += p\<close> is a floating-point
  addition.\<close>

definition update_person ::
  "string list \<Rightarrow> string list \<Rightarrow> string list \<Rightarrow> pyfloat \<Rightarrow> string \<Rightarrow> belief \<Rightarrow> belief"
where
  "update_person one_gene two_genes have_trait p person b =
     (if person \<in> set one_gene then
        (if person \<in> set have_trait
         then b\<lparr>gene1 := fadd (gene1 b) p, trait_True := fadd (trait_True b) p\<rparr>
         else b\<lparr>gene1 := fadd (gene1 b) p, trait_False := fadd (trait_False b) p\<rparr>)
      else if person \<in> set two_genes then
        (if person \<in> set have_trait
         then b\<lparr>gene2 := fadd (gene2 b) p, trait_True := fadd (trait_True b) p\<rparr>
         else b\<lparr>trait_False := fadd (trait_False b) p, gene2 := fadd (gene2 b) p\<rparr>)
      else if person \<notin> set one_gene \<and> person \<notin> set two_genes then
        (if person \<in> set have_trait
         then b\<lparr>gene0 := fadd (gene0 b) p, trait_True := fadd (trait_True b) p\<rparr>
         else b\<lparr>gene0 := fadd (gene0 b) p, trait_False := fadd (trait_False b) p\<rparr>)
      else
        (if person \<in> set have_trait
         then b\<lparr>trait_True := fadd (trait_True b) p\<rparr>
         else b\<lparr>trait_False := fadd (trait_False b) p\<rparr>))"

definition update ::
  "probabilities \<Rightarrow> string list \<Rightarrow> string list \<Rightarrow> string list \<Rightarrow> pyfloat \<Rightarrow> probabilities"
where
  "update probs one_gene two_genes have_trait p =
     map (\<lambda>(person, b). (person, update_person one_gene two_genes have_trait p person b)) probs"

subsection \<open>normalize\<close>

text \<open>\<open>sum(d.values())\<close> of the two inner dictionaries: the additions from left to right,
  in key order, starting from \<open>0\<close>, as \<open>sum\<close> does before Python 3.12 (from 3.12 on it
  compensates the rounding errors of the additions).\<close>

definition gene_total :: "belief \<Rightarrow> pyfloat" where
  "gene_total b = fadd (fadd (fadd (Finite 0) (gene2 b)) (gene1 b)) (gene0 b)"

definition trait_total :: "belief \<Rightarrow> pyfloat" where
  "trait_total b = fadd (fadd (Finite 0) (trait_True b)) (trait_False b)"

text \<open>The inner loop over the values of one distribution: \<open>d[value] = (d[value] * 1) / total\<close>
  for each of them, the gene buckets first. Each division raises when \<open>total\<close> is zero.\<close>

definition normalize_gene :: "belief \<Rightarrow> error + belief" where
  "normalize_gene b =
     (let total = gene_total b in
      case fdiv (fmul (gene2 b) (Finite 1)) total of
        Inl e \<Rightarrow> Inl e
      | Inr q2 \<Rightarrow>
     (case fdiv (fmul (gene1 b) (Finite 1)) total of
        Inl e \<Rightarrow> Inl e
      | Inr q1 \<Rightarrow>
     (case fdiv (fmul (gene0 b) (Finite 1)) total of
        Inl e \<Rightarrow> Inl e
      | Inr q0 \<Rightarrow> Inr (b\<lparr>gene2 := q2, gene1 := q1, gene0 := q0\<rparr>))))"

definition normalize_trait :: "belief \<Rightarrow> error + belief" where
  "normalize_trait b =
     (let total = trait_total b in
      case fdiv (fmul (trait_True b) (Finite 1)) total of
        Inl e \<Rightarrow> Inl e
      | Inr qt \<Rightarrow>
     (case fdiv (fmul (trait_False b) (Finite 1)) total of
        Inl e \<Rightarrow> Inl e
      | Inr qf \<Rightarrow> Inr (b\<lparr>trait_True := qt, trait_False := qf\<rparr>)))"

text \<open>The loop over the two fields of one person.\<close>

definition normalize_person :: "belief \<Rightarrow> error + belief" where
  "normalize_person b =
     (case normalize_gene b of Inl e \<Rightarrow> Inl e | Inr b1 \<Rightarrow> normalize_trait b1)"

text \<open>\<open>normalize\<close> itself, written \<open>normalize_probs\<close> because HOL has a constant
  \<open>normalize\<close>: the loop over the persons, which stops at the first exception.\<close>

fun normalize_probs :: "probabilities \<Rightarrow> error + probabilities" where
  "normalize_probs [] = Inr []"
| "normalize_probs ((person, b) # rest) =
     (case normalize_person b of
        Inl e \<Rightarrow> Inl e
      | Inr b' \<Rightarrow>
          (case normalize_probs rest of
             Inl e \<Rightarrow> Inl e
           | Inr rest' \<Rightarrow> Inr ((person, b') # rest')))"

subsection \<open>main\<close>

text \<open>A \<open>for\<close> loop whose body may raise: the first exception ends the loop.\<close>

fun for_loop :: "('a \<Rightarrow> 's \<Rightarrow> error + 's) \<Rightarrow> 'a list \<Rightarrow> 's \<Rightarrow> error + 's" where
  "for_loop body [] s = Inr s"
| "for_loop body (x # xs) s =
     (case body x s of Inl e \<Rightarrow> Inl e | Inr s' \<Rightarrow> for_loop body xs s')"

text \<open>\<open>any(... for person in names)\<close> of lines 68-72: stops at the first person whose
  known trait disagrees with \<open>have_trait\<close>.\<close>

fun fails_evidence :: "people \<Rightarrow> string list \<Rightarrow> string list \<Rightarrow> error + bool" where
  "fails_evidence people [] have_trait = Inr False"
| "fails_evidence people (person # names) have_trait =
     (case map_of people person of
        None \<Rightarrow> Inl KeyError
      | Some r \<Rightarrow>
          if trait r \<noteq> None \<and> trait r \<noteq> Some (person \<in> set have_trait) then Inr True
          else fails_evidence people names have_trait)"

text \<open>Lines 81-82: the body of the innermost loop. What \<open>joint_probability\<close> prints goes to
  the standard output, not to \<open>probabilities\<close>.\<close>

definition score ::
  "people \<Rightarrow> string list \<Rightarrow> string list \<Rightarrow> string list \<Rightarrow> probabilities \<Rightarrow> error + probabilities"
where
  "score people have_trait one_gene two_genes probs =
     (case joint_probability people one_gene two_genes have_trait of
        Inl e \<Rightarrow> Inl e
      | Inr (p, out) \<Rightarrow> Inr (update probs one_gene two_genes have_trait p))"

text \<open>Lines 77-82: the two loops over the gene sets.\<close>

definition gene_loops ::
  "people \<Rightarrow> string list \<Rightarrow> string list \<Rightarrow> probabilities \<Rightarrow> error + probabilities"
where
  "gene_loops people names have_trait probs =
     for_loop (\<lambda>one_gene.
         for_loop (\<lambda>two_genes. score people have_trait one_gene two_genes)
           (powerset (set_minus names one_gene)))
       (powerset names) probs"

text \<open>Lines 65-82: the body of the loop over \<open>have_trait\<close>; \<open>continue\<close> leaves
  \<open>probabilities\<close> as it is.\<close>

definition have_trait_step ::
  "people \<Rightarrow> string list \<Rightarrow> string list \<Rightarrow> probabilities \<Rightarrow> error + probabilities"
where
  "have_trait_step people names have_trait probs =
     (case fails_evidence people names have_trait of
        Inl e \<Rightarrow> Inl e
      | Inr fails \<Rightarrow> if fails then Inr probs else gene_loops people names have_trait probs)"

text \<open>Lines 48-61: every bucket starts at 0.\<close>

definition init_probabilities :: "people \<Rightarrow> probabilities" where
  "init_probabilities people =
     map (\<lambda>(person, r). (person,
            \<lparr>gene2 = Finite 0, gene1 = Finite 0, gene0 = Finite 0,
              trait_True = Finite 0, trait_False = Finite 0\<rparr>)) people"

text \<open>Lines 48-82 of \<open>main\<close>: \<open>probabilities\<close> as it is before \<open>normalize\<close> is called.\<close>

definition main_accumulate :: "people \<Rightarrow> error + probabilities" where
  "main_accumulate people =
     (let names = map fst people
      in for_loop (have_trait_step people names) (powerset names) (init_probabilities people))"

text \<open>Lines 48-85 of \<open>main\<close>: the posterior that is then printed.\<close>

definition main_infer :: "people \<Rightarrow> error + probabilities" where
  "main_infer people =
     (case main_accumulate people of Inl e \<Rightarrow> Inl e | Inr probs \<Rightarrow> normalize_probs probs)"

subsection \<open>Folding scored hypotheses\<close>

text \<open>A hypothesis is the triple \<open>(one_gene, two_genes, have_trait)\<close>; \<open>update_all\<close> calls
  \<open>update\<close> once for each scored hypothesis of a list, in the order of the list, as the
  loops of \<open>main\<close> do with the hypotheses they enumerate.\<close>

type_synonym hypothesis = "string list \<times> string list \<times> string list"

definition update_all :: "probabilities \<Rightarrow> (hypothesis \<times> pyfloat) list \<Rightarrow> probabilities" where
  "update_all probs scored =
     fold (\<lambda>((one_gene, two_genes, have_trait), p) probs.
             update probs one_gene two_genes have_trait p) scored probs"

subsection \<open>What the specification asks of a hypothesis and of the gene-count factor\<close>

text \<open>Every person's mother and father are both absent, or both name persons of the
  pedigree.\<close>

definition parents_well_formed :: "people \<Rightarrow> bool" where
  "parents_well_formed people \<longleftrightarrow>
     (\<forall>(person, r) \<in> set people.
        (mother r = None \<and> father r = None)
      \<or> (isin (mother r) (map fst people) \<and> isin (father r) (map fst people)))"

text \<open>A well-formed hypothesis: \<open>one_gene\<close> and \<open>two_genes\<close> are disjoint sets of persons
  of the pedigree, \<open>have_trait\<close> is a set of persons of the pedigree, and the parents are
  well formed.\<close>

definition well_formed :: "people \<Rightarrow> string list \<Rightarrow> string list \<Rightarrow> string list \<Rightarrow> bool" where
  "well_formed people one_gene two_genes have_trait \<longleftrightarrow>
     set one_gene \<subseteq> set (map fst people) \<and>
     set two_genes \<subseteq> set (map fst people) \<and>
     set one_gene \<inter> set two_genes = {} \<and>
     set have_trait \<subseteq> set (map fst people) \<and>
     parents_well_formed people"

text \<open>The mutation rate \<open>m\<close>, the transmission probability and the closed form of the
  gene-count factor of a child with \<open>child\<close> copies whose mother has \<open>gm\<close> copies and whose
  father has \<open>gf\<close>, as the specification writes them: over the real numbers.\<close>

definition mutation_rate :: real where
  "mutation_rate = 0.01"

definition transmit :: "nat \<Rightarrow> real" where
  "transmit g = (if g = 0 then mutation_rate else if g = 1 then 0.5 else 1 - mutation_rate)"

definition closed_form :: "nat \<Rightarrow> nat \<Rightarrow> nat \<Rightarrow> real" where
  "closed_form child gm gf =
     (let pm = transmit gm; pf = transmit gf in
      if child = 2 then pm * pf
      else if child = 0 then (1 - pm) * (1 - pf)
      else pm * (1 - pf) + pf * (1 - pm))"

subsection \<open>An example pedigree\<close>

text \<open>A child with both parents, one parent observed with the trait and one without.\<close>

definition family :: people where
  "family =
     [(''Harry'', \<lparr>name = ''Harry'', mother = Some ''Lily'', father = Some ''James'', trait = None\<rparr>),
      (''James'', \<lparr>name = ''James'', mother = None, father = None, trait = Some True\<rparr>),
      (''Lily'', \<lparr>name = ''Lily'', mother = None, father = None, trait = Some False\<rparr>)]"

subsection \<open>What the specification asks of the evidence filter\<close>

text \<open>A \<open>have_trait\<close> subset is consistent with the evidence when every person with a known
  observed trait is a member of it exactly when the observation is true; a person with
  no observation imposes nothing.\<close>

definition evidence_consistent :: "people \<Rightarrow> string list \<Rightarrow> string list \<Rightarrow> bool" where
  "evidence_consistent people names have_trait \<longleftrightarrow>
     (\<forall>person \<in> set names.
        case map_of people person of
          None \<Rightarrow> True
        | Some r \<Rightarrow>
            (case trait r of
               None \<Rightarrow> True
             | Some observed \<Rightarrow> (person \<in> set have_trait) = observed))"

text \<open>The hypotheses in the order in which the three loops of \<open>main\<close> reach line 81, and
  the body of the innermost loop as a function of the hypothesis.\<close>

definition hypotheses :: "people \<Rightarrow> hypothesis list" where
  "hypotheses people =
     (let names = map fst people in
      concat (map (\<lambda>have_trait.
          concat (map (\<lambda>one_gene.
              map (\<lambda>two_genes. (one_gene, two_genes, have_trait))
                (powerset (set_minus names one_gene)))
            (powerset names)))
        (filter (evidence_consistent people names) (powerset names))))"


subsection \<open>Which bucket an update reaches\<close>

text \<open>The five buckets of a person, and whether \<open>update\<close>, called with the hypothesis
  \<open>h\<close>, adds its \<open>p\<close> to bucket \<open>k\<close> of \<open>person\<close>: one gene bucket and one trait bucket
  do.\<close>

datatype bucket = Gene2 | Gene1 | Gene0 | Trait_True | Trait_False

definition receives :: "string \<Rightarrow> hypothesis \<Rightarrow> bucket \<Rightarrow> bool" where
  "receives person h k =
     (case h of (one_gene, two_genes, have_trait) \<Rightarrow>
        (case k of
           Gene1 \<Rightarrow> person \<in> set one_gene
         | Gene2 \<Rightarrow> person \<notin> set one_gene \<and> person \<in> set two_genes
         | Gene0 \<Rightarrow> person \<notin> set one_gene \<and> person \<notin> set two_genes
         | Trait_True \<Rightarrow> person \<in> set have_trait
         | Trait_False \<Rightarrow> person \<notin> set have_trait))"

text \<open>The values that bucket \<open>k\<close> of \<open>person\<close> receives from a list of scored hypotheses,
  in the order of the list.\<close>

definition addends :: "string \<Rightarrow> bucket \<Rightarrow> (hypothesis \<times> pyfloat) list \<Rightarrow> pyfloat list" where
  "addends person k scored = map snd (filter (\<lambda>(h, p). receives person h k) scored)"

text \<open>The floating-point sum of a list, from left to right, starting from \<open>a\<close>.\<close>

definition fsum :: "pyfloat \<Rightarrow> pyfloat list \<Rightarrow> pyfloat" where
  "fsum a ps = foldl fadd a ps"

text \<open>The belief of \<open>person\<close> when each bucket has been increased by its addends.\<close>

definition accumulated :: "string \<Rightarrow> belief \<Rightarrow> (hypothesis \<times> pyfloat) list \<Rightarrow> belief" where
  "accumulated person b scored =
     \<lparr> gene2 = fsum (gene2 b) (addends person Gene2 scored),
       gene1 = fsum (gene1 b) (addends person Gene1 scored),
       gene0 = fsum (gene0 b) (addends person Gene0 scored),
       trait_True = fsum (trait_True b) (addends person Trait_True scored),
       trait_False = fsum (trait_False b) (addends person Trait_False scored) \<rparr>"

subsection \<open>The scores of the enumerated hypotheses\<close>



section \<open>Properties\<close>

subsection \<open>Rounding\<close>

text \<open>The rules that evaluate the floating-point operations on numerals.\<close>

lemmas fl_eval = lit_def fl_def rd_def exponent_def round_even_def pow2_def max_double_def
  Let_def exp_up.simps exp_down.simps fpow2_def

lemma pow2_powr: "pow2 e = 2 powr (of_int e)"
  by (simp add: pow2_def powr_int)

lemma pow2_pos [simp]: "0 < pow2 e"
  by (simp add: pow2_powr)

lemma pow2_nonneg [simp]: "0 \<le> pow2 e"
  using pow2_pos [of e] by linarith

lemma pow2_nonzero [simp]: "pow2 e \<noteq> 0"
  using pow2_pos [of e] by linarith

lemma pow2_add: "pow2 (a + b) = pow2 a * pow2 b"
  by (simp add: pow2_powr powr_add)

lemma pow2_mono: "a \<le> b \<Longrightarrow> pow2 a \<le> pow2 b"
  by (simp add: pow2_powr)

lemma exp_up_spec:
  "e \<le> 971 \<Longrightarrow> pow2 (e + 52) \<le> x \<Longrightarrow>
   e \<le> exp_up e x \<and> exp_up e x \<le> 971 \<and> pow2 (exp_up e x + 52) \<le> x
   \<and> (exp_up e x < 971 \<longrightarrow> x < pow2 (exp_up e x + 53))"
proof (induction e x rule: exp_up.induct)
  case (1 e x)
  show ?case
  proof (cases "e < 971 \<and> pow2 (e + 53) \<le> x")
    case True
    then have "pow2 (e + 1 + 52) \<le> x" by (simp add: add.commute add.left_commute)
    with 1 True have "e + 1 \<le> exp_up (e + 1) x \<and> exp_up (e + 1) x \<le> 971
      \<and> pow2 (exp_up (e + 1) x + 52) \<le> x
      \<and> (exp_up (e + 1) x < 971 \<longrightarrow> x < pow2 (exp_up (e + 1) x + 53))" by simp
    moreover have "exp_up e x = exp_up (e + 1) x" using True by (subst exp_up.simps) simp
    ultimately show ?thesis by simp
  next
    case False
    then have "exp_up e x = e" by (subst exp_up.simps) auto
    with False 1 show ?thesis by auto
  qed
qed

lemma exp_down_spec:
  "- 1074 \<le> e \<Longrightarrow> x < pow2 (e + 53) \<Longrightarrow>
   exp_down e x \<le> e \<and> - 1074 \<le> exp_down e x \<and> x < pow2 (exp_down e x + 53)
   \<and> (- 1074 < exp_down e x \<longrightarrow> pow2 (exp_down e x + 52) \<le> x)"
proof (induction e x rule: exp_down.induct)
  case (1 e x)
  show ?case
  proof (cases "- 1074 < e \<and> x < pow2 (e + 52)")
    case True
    then have "x < pow2 (e - 1 + 53)" by (simp add: algebra_simps)
    with 1 True have "exp_down (e - 1) x \<le> e - 1 \<and> - 1074 \<le> exp_down (e - 1) x
      \<and> x < pow2 (exp_down (e - 1) x + 53)
      \<and> (- 1074 < exp_down (e - 1) x \<longrightarrow> pow2 (exp_down (e - 1) x + 52) \<le> x)" by simp
    moreover have "exp_down e x = exp_down (e - 1) x" using True by (subst exp_down.simps) simp
    ultimately show ?thesis by simp
  next
    case False
    then have "exp_down e x = e" by (subst exp_down.simps) auto
    with False 1 show ?thesis by auto
  qed
qed

lemma exponent_spec:
  "- 1074 \<le> exponent x \<and> exponent x \<le> 971
   \<and> (- 1074 < exponent x \<longrightarrow> pow2 (exponent x + 52) \<le> x)
   \<and> (exponent x < 971 \<longrightarrow> x < pow2 (exponent x + 53))"
proof (cases "pow2 53 \<le> x")
  case True
  have "pow2 (0 + 52) \<le> pow2 53" by (rule pow2_mono) simp
  with True have "pow2 (0 + 52) \<le> x" by simp
  from exp_up_spec [OF _ this] True show ?thesis by (simp add: exponent_def)
next
  case False
  then have "x < pow2 (0 + 53)" by simp
  from exp_down_spec [OF _ this] False show ?thesis by (simp add: exponent_def)
qed

lemma exponent_unique:
  assumes "- 1074 \<le> e" "e \<le> 971" "- 1074 < e \<longrightarrow> pow2 (e + 52) \<le> x"
    "e < 971 \<longrightarrow> x < pow2 (e + 53)"
  shows "exponent x = e"
proof (rule ccontr)
  let ?f = "exponent x"
  assume ne: "?f \<noteq> e"
  note s = exponent_spec [of x]
  show False
  proof (cases "?f < e")
    case True
    then have "x < pow2 (?f + 53)" "pow2 (e + 52) \<le> x" using s assms by auto
    moreover have "pow2 (?f + 53) \<le> pow2 (e + 52)" using True by (intro pow2_mono) simp
    ultimately show False by simp
  next
    case False
    with ne have "e < ?f" by simp
    then have "x < pow2 (e + 53)" "pow2 (?f + 52) \<le> x" using s assms by auto
    moreover have "pow2 (e + 53) \<le> pow2 (?f + 52)" using \<open>e < ?f\<close> by (intro pow2_mono) simp
    ultimately show False by simp
  qed
qed

lemma round_even_error: "\<bar>of_int (round_even y) - y\<bar> \<le> 1 / 2"
  unfolding round_even_def Let_def by (auto simp: abs_le_iff)

lemma round_even_nonneg: "0 \<le> y \<Longrightarrow> 0 \<le> round_even y"
  unfolding round_even_def Let_def by auto

lemma rd_error_exp: "\<bar>rd x - x\<bar> \<le> pow2 (exponent \<bar>x\<bar>) / 2"
proof -
  let ?e = "exponent \<bar>x\<bar>"
  have "rd x - x = (of_int (round_even (x / pow2 ?e)) - x / pow2 ?e) * pow2 ?e"
    by (simp add: rd_def Let_def field_simps)
  then have "\<bar>rd x - x\<bar> = \<bar>of_int (round_even (x / pow2 ?e)) - x / pow2 ?e\<bar> * pow2 ?e"
    by (simp add: abs_mult)
  also have "\<dots> \<le> 1 / 2 * pow2 ?e"
    by (intro mult_right_mono round_even_error) simp
  finally show ?thesis by simp
qed

lemma rd_error: "\<bar>rd x - x\<bar> \<le> \<bar>x\<bar> / 2 ^ 53 + 1 / 2 ^ 1075"
proof -
  let ?e = "exponent \<bar>x\<bar>"
  note s = exponent_spec [of "\<bar>x\<bar>"]
  show ?thesis
  proof (cases "- 1074 < ?e")
    case True
    then have "pow2 (?e + 52) \<le> \<bar>x\<bar>" using s by simp
    moreover have "pow2 52 = 2 ^ 52" by (simp add: pow2_def)
    then have "pow2 (?e + 52) = pow2 ?e * 2 ^ 52" by (simp add: pow2_add)
    ultimately have "pow2 ?e / 2 \<le> \<bar>x\<bar> / 2 ^ 53" by simp
    moreover note calculation = this
    moreover have "(0::real) \<le> 1 / 2 ^ 1075" by simp
    ultimately show ?thesis using rd_error_exp [of x] by linarith
  next
    case False
    with s have "?e = - 1074" by simp
    then have "pow2 ?e / 2 = 1 / 2 ^ 1075" by (simp add: pow2_def)
    moreover have "0 \<le> \<bar>x\<bar> / 2 ^ 53" by simp
    ultimately show ?thesis using rd_error_exp [of x] by linarith
  qed
qed

lemma rd_nonneg: "0 \<le> x \<Longrightarrow> 0 \<le> rd x"
  unfolding rd_def Let_def
  by (intro mult_nonneg_nonneg) (simp_all add: round_even_nonneg)

lemma rd_zero [simp]: "rd 0 = 0"
  by (simp add: rd_def round_even_def)


subsection \<open>powerset enumerates the subsets\<close>

text \<open>The combinations of length \<open>r\<close> are the subsequences of length \<open>r\<close>, each once.\<close>

lemma mset_combinations:
  "mset (combinations xs r) = filter_mset (\<lambda>ys. length ys = r) (mset (subseqs xs))"
proof (induction xs arbitrary: r)
  case Nil
  then show ?case by (cases r) auto
next
  case (Cons x xs)
  show ?case
  proof (cases r)
    case 0
    then show ?thesis using Cons.IH [of 0] by (simp add: Let_def filter_mset_image_mset)
  next
    case (Suc k)
    then show ?thesis using Cons.IH [of k] Cons.IH [of "Suc k"]
      by (simp add: Let_def filter_mset_image_mset comp_def)
  qed
qed

lemma sum_single_level:
  "(n::nat) < k \<Longrightarrow> (\<Sum>r<k. (if n = r then {#x#} else {#})) = {#x#}"
  by (simp add: sum.delta')

text \<open>Sorting a multiset into levels below a bound and joining the levels gives it back.\<close>

lemma sum_filter_mset_levels:
  fixes f :: "'a \<Rightarrow> nat"
  shows "(\<forall>x \<in># M. f x < k) \<Longrightarrow> (\<Sum>r<k. filter_mset (\<lambda>x. f x = r) M) = M"
proof (induction M)
  case empty
  then show ?case by simp
next
  case (add x M)
  have "(\<Sum>r<k. filter_mset (\<lambda>y. f y = r) (add_mset x M)) =
        (\<Sum>r<k. (if f x = r then {#x#} else {#}) + filter_mset (\<lambda>y. f y = r) M)"
    by (rule sum.cong) auto
  also have "\<dots> = {#x#} + M"
    using add by (simp add: sum.distrib sum_single_level)
  finally show ?case by simp
qed

lemma length_in_subseqs: "ys \<in> set (subseqs xs) \<Longrightarrow> length ys \<le> length xs"
  by (induction xs arbitrary: ys) (fastforce simp: Let_def)+

text \<open>\<open>powerset\<close> lists the subsequences of its argument, in another order.\<close>

lemma mset_powerset: "mset (powerset xs) = mset (subseqs xs)"
proof -
  have "mset (powerset xs) = (\<Sum>r<length xs + 1. mset (combinations xs r))"
    by (simp add: powerset_def mset_concat comp_def interv_sum_list_conv_sum_set_nat
          atLeast0LessThan del: upt_Suc)
  also have "\<dots> =
      (\<Sum>r<length xs + 1. filter_mset (\<lambda>ys. length ys = r) (mset (subseqs xs)))"
    by (simp only: mset_combinations)
  also have "\<dots> = mset (subseqs xs)"
    by (rule sum_filter_mset_levels) (auto simp: less_Suc_eq_le dest: length_in_subseqs)
  finally show ?thesis .
qed

lemma set_powerset: "set (powerset xs) = set (subseqs xs)"
  using mset_powerset [of xs] by (rule mset_eq_setD)

text \<open>
  C5. For a set \<open>S\<close> of \<open>n\<close> elements (a list without repetitions), \<open>powerset S\<close> has
  exactly \<open>2 ^ n\<close> entries, they are pairwise different as sets, they are exactly the
  subsets of \<open>S\<close>, each is itself without repetitions, the empty set and \<open>S\<close> are among
  them, and for the empty set the result is the one-element list holding the empty set.
\<close>

theorem powerset_all_subsets:
  "distinct S \<Longrightarrow>
     length (powerset S) = 2 ^ length S
   \<and> distinct (map set (powerset S))
   \<and> set (map set (powerset S)) = Pow (set S)
   \<and> (\<forall>xs \<in> set (powerset S). distinct xs)
   \<and> [] \<in> set (powerset S)
   \<and> S \<in> set (powerset S)
   \<and> powerset ([] :: 'a list) = [[]]"
proof (intro conjI)
  assume d: "distinct S"
  have m: "mset (map set (powerset S)) = mset (map set (subseqs S))"
    using mset_powerset [of S] by (metis mset_map)
  show "length (powerset S) = 2 ^ length S"
    using mset_eq_length [OF mset_powerset [of S]] by (simp add: length_subseqs)
  show "distinct (map set (powerset S))"
    using mset_eq_imp_distinct_iff [OF m] distinct_set_subseqs [OF d] by simp
  show "set (map set (powerset S)) = Pow (set S)"
    by (simp add: set_powerset subseqs_powset)
  show "\<forall>xs \<in> set (powerset S). distinct xs"
    using d by (auto simp: set_powerset dest: subseqs_distinctD)
  show "[] \<in> set (powerset S)"
    by (induction S) (auto simp: set_powerset Let_def)
  show "S \<in> set (powerset S)"
    by (simp add: set_powerset subseqs_refl)
  show "powerset ([] :: 'a list) = [[]]"
    by (simp add: powerset_def)
qed

theorem powerset_all_subsets_witness:
  "distinct [''a'', ''b''] \<and> powerset [''a'', ''b''] = [[], [''a''], [''b''], [''a'', ''b'']]
   \<and> length (powerset [''a'', ''b'']) = 2 ^ length [''a'', ''b'']
   \<and> distinct (map set (powerset [''a'', ''b'']))"
  using powerset_all_subsets [of "[''a'', ''b'']"]
  by (simp add: powerset_def numeral_2_eq_2)

lemma powerset_Nil: "powerset [] = [[]]"
  by (simp add: powerset_def)

lemma powerset_single: "powerset [n] = [[], [n]]"
  by (simp add: powerset_def)

subsection \<open>The evidence filter of main\<close>

lemma fails_evidence_eq:
  "set names \<subseteq> set (map fst people) \<Longrightarrow>
   fails_evidence people names have_trait
     = Inr (\<not> evidence_consistent people names have_trait)"
proof (induction names)
  case Nil
  then show ?case by (simp add: evidence_consistent_def)
next
  case (Cons person names)
  from Cons.prems have "person \<in> fst ` set people" by simp
  then obtain r where r: "map_of people person = Some r"
    by (metis weak_map_of_SomeI map_of_eq_None_iff not_Some_eq)
  from Cons have ih: "fails_evidence people names have_trait
     = Inr (\<not> evidence_consistent people names have_trait)" by simp
  show ?case using r ih
    by (cases "trait r") (auto simp: evidence_consistent_def)
qed

lemma for_loop_filter:
  "(\<And>x s. x \<in> set xs \<Longrightarrow> body x s = (if P x then g x s else Inr s)) \<Longrightarrow>
   for_loop body xs s = for_loop g (filter P xs) s"
proof (induction xs arbitrary: s)
  case Nil
  then show ?case by simp
next
  case (Cons x xs)
  then show ?case by (cases "g x s") simp_all
qed

lemma have_trait_step_eq:
  "have_trait_step people (map fst people) have_trait probs =
     (if evidence_consistent people (map fst people) have_trait
      then gene_loops people (map fst people) have_trait probs else Inr probs)"
  by (simp add: have_trait_step_def fails_evidence_eq)

text \<open>
  C6. In \<open>main\<close>, where \<open>names\<close> are the keys of \<open>people\<close>, the test \<open>fails_evidence\<close> is
  true exactly when \<open>have_trait\<close> is not consistent with the evidence; the body of the
  outer loop runs the gene loops for a consistent \<open>have_trait\<close> and leaves
  \<open>probabilities\<close> untouched otherwise; so the outer loop is the loop of the gene loops
  over exactly the consistent subsets that \<open>powerset\<close> lists.
\<close>

theorem evidence_filter:
  "fails_evidence people (map fst people) have_trait
     = Inr (\<not> evidence_consistent people (map fst people) have_trait)
   \<and> have_trait_step people (map fst people) have_trait probs =
     (if evidence_consistent people (map fst people) have_trait
      then gene_loops people (map fst people) have_trait probs else Inr probs)
   \<and> main_accumulate people =
       for_loop (gene_loops people (map fst people))
         (filter (evidence_consistent people (map fst people)) (powerset (map fst people)))
         (init_probabilities people)"
proof (intro conjI)
  show "fails_evidence people (map fst people) have_trait
     = Inr (\<not> evidence_consistent people (map fst people) have_trait)"
    by (simp add: fails_evidence_eq)
  show "have_trait_step people (map fst people) have_trait probs =
     (if evidence_consistent people (map fst people) have_trait
      then gene_loops people (map fst people) have_trait probs else Inr probs)"
    by (rule have_trait_step_eq)
  show "main_accumulate people =
       for_loop (gene_loops people (map fst people))
         (filter (evidence_consistent people (map fst people)) (powerset (map fst people)))
         (init_probabilities people)"
    unfolding main_accumulate_def Let_def
    by (rule for_loop_filter) (rule have_trait_step_eq)
qed

theorem evidence_filter_witness:
  "evidence_consistent family (map fst family) [''James'']
   \<and> \<not> evidence_consistent family (map fst family) [''James'', ''Lily'']
   \<and> have_trait_step family (map fst family) [''James''] (init_probabilities family)
       = gene_loops family (map fst family) [''James''] (init_probabilities family)
   \<and> have_trait_step family (map fst family) [''James'', ''Lily''] (init_probabilities family)
       = Inr (init_probabilities family)
   \<and> fails_evidence family (map fst family) [''James'', ''Lily''] = Inr True"
proof -
  have c: "evidence_consistent family (map fst family) [''James'']"
    "\<not> evidence_consistent family (map fst family) [''James'', ''Lily'']"
    by (simp_all add: evidence_consistent_def family_def)
  show ?thesis
    using c evidence_filter [of family "[''James'']" "init_probabilities family"]
      evidence_filter [of family "[''James'', ''Lily'']" "init_probabilities family"]
    by simp
qed



lemma for_loop_map:
  "for_loop body (map f xs) s = for_loop (\<lambda>x. body (f x)) xs s"
  by (induction xs arbitrary: s) (auto split: sum.splits)



subsection \<open>joint_probability on a well-formed hypothesis\<close>

lemma isin_partition:
  "isin parent names \<Longrightarrow>
   isin parent one_gene \<or> isin parent two_genes
   \<or> isin parent (set_minus (set_minus names one_gene) two_genes)"
  by (auto simp: isin_def set_minus_def split: option.splits)

lemma gene_factor_not_raised:
  assumes "(mo = None \<and> fa = None)
     \<or> ((isin mo one_gene \<or> isin mo two_genes \<or> isin mo set_no_genes)
        \<and> (isin fa one_gene \<or> isin fa two_genes \<or> isin fa set_no_genes))"
  shows "\<not> isl (gene_factor g mo fa one_gene two_genes set_no_genes)"
  using assms unfolding gene_factor_def two_genes_factor_def one_gene_factor_def no_genes_factor_def
  by (cases "isin mo one_gene"; cases "isin mo two_genes"; cases "isin mo set_no_genes";
      cases "isin fa one_gene"; cases "isin fa two_genes"; cases "isin fa set_no_genes";
      simp)

lemma gene_factor_classified:
  assumes "(mo = None \<and> fa = None)
     \<or> ((isin mo one_gene \<or> isin mo two_genes \<or> isin mo set_no_genes)
        \<and> (isin fa one_gene \<or> isin fa two_genes \<or> isin fa set_no_genes))"
  shows "\<exists>v. gene_factor g mo fa one_gene two_genes set_no_genes = Inr v"
  using gene_factor_not_raised [OF assms, of g]
  by (cases "gene_factor g mo fa one_gene two_genes set_no_genes") simp_all

lemma printed_mul [simp]:
  "printed (mul_with_trait g st v) = printed st"
  "printed (mul_without_trait g st v) = printed st"
  by (simp_all add: mul_with_trait_def mul_without_trait_def)

lemma map_of_parents:
  assumes "parents_well_formed people" "map_of people person = Some r"
  shows "(mother r = None \<and> father r = None)
      \<or> (isin (mother r) (map fst people) \<and> isin (father r) (map fst people))"
  using assms map_of_SomeD [OF assms(2)] by (auto simp: parents_well_formed_def)

lemma person_loop_safe:
  assumes wf: "parents_well_formed people"
    and no: "set_no_genes = set_minus (set_minus (map fst people) one_gene) two_genes"
    and nt: "set_no_trait = set_minus (map fst people) have_trait"
    and sub: "set persons \<subseteq> set (map fst people)"
  shows "\<exists>st'. person_loop people one_gene two_genes set_no_genes have_trait set_no_trait
                 g persons st = Inr st' \<and> printed st' = printed st"
  using sub
proof (induction persons arbitrary: st)
  case Nil
  then show ?case by simp
next
  case (Cons person rest)
  from Cons.prems have "person \<in> fst ` set people" by simp
  then obtain r where r: "map_of people person = Some r"
    by (metis weak_map_of_SomeI map_of_eq_None_iff not_Some_eq)
  from map_of_parents [OF wf r] have
    "(mother r = None \<and> father r = None)
     \<or> ((isin (mother r) one_gene \<or> isin (mother r) two_genes \<or> isin (mother r) set_no_genes)
        \<and> (isin (father r) one_gene \<or> isin (father r) two_genes \<or> isin (father r) set_no_genes))"
    unfolding no using isin_partition by blast
  from gene_factor_classified [OF this] obtain v where
    v: "gene_factor g (mother r) (father r) one_gene two_genes set_no_genes = Inr v" by blast
  have cov: "person \<in> set have_trait \<or> person \<in> set set_no_trait"
    using Cons.prems by (auto simp: nt set_minus_def)
  from Cons.prems have rest: "set rest \<subseteq> set (map fst people)" by simp
  show ?case
  proof (cases "person \<in> set have_trait")
    case True
    then show ?thesis using r v Cons.IH [OF rest, of "mul_with_trait g st (fmul v (PROBS_trait g True))"]
      by simp
  next
    case False
    with cov have "person \<in> set set_no_trait" by simp
    then show ?thesis
      using False r v Cons.IH [OF rest, of "mul_without_trait g st (fmul v (PROBS_trait g False))"]
      by simp
  qed
qed

text \<open>A well-formed hypothesis is scored without an exception and without output.\<close>

lemma joint_probability_returns:
  assumes "well_formed people one_gene two_genes have_trait"
  shows "\<exists>p. joint_probability people one_gene two_genes have_trait = Inr (p, [])"
proof -
  let ?names = "map fst people"
  let ?no = "set_minus (set_minus ?names one_gene) two_genes"
  let ?nt = "set_minus ?names have_trait"
  from assms have wf: "parents_well_formed people"
    and s1: "set one_gene \<subseteq> set ?names" and s2: "set two_genes \<subseteq> set ?names"
    by (simp_all add: well_formed_def)
  have s0: "set ?no \<subseteq> set ?names" by (auto simp: set_minus_def)
  from person_loop_safe [OF wf refl refl s2, where g = 2 and st = jp_init and one_gene = one_gene and have_trait = have_trait]
  obtain st1 where 1: "person_loop people one_gene two_genes ?no have_trait ?nt 2 two_genes jp_init
      = Inr st1" "printed st1 = []"
    by (auto simp: jp_init_def)
  from person_loop_safe [OF wf refl refl s1, where g = 1 and st = st1 and two_genes = two_genes and have_trait = have_trait]
  obtain st2 where 2: "person_loop people one_gene two_genes ?no have_trait ?nt 1 one_gene st1
      = Inr st2" "printed st2 = []"
    using 1 by auto
  from person_loop_safe [OF wf refl refl s0, where g = 0 and st = st2 and have_trait = have_trait]
  obtain st3 where 3: "person_loop people one_gene two_genes ?no have_trait ?nt 0 ?no st2
      = Inr st3" "printed st3 = []"
    using 2 by auto
  show ?thesis using 1 2 3 by (simp add: joint_probability_def Let_def)
qed


text \<open>
  C8. Under a well-formed hypothesis \<open>joint_probability\<close> returns a value and prints
  nothing: no \<open>raise TypeError\<close> is reached (nor a \<open>KeyError\<close>), and the branch that
  prints \<open>Error\<close> is never taken.
\<close>

theorem joint_probability_safe:
  assumes "well_formed people one_gene two_genes have_trait"
  shows "\<exists>p. joint_probability people one_gene two_genes have_trait = Inr (p, [])"
  using assms by (rule joint_probability_returns)

theorem joint_probability_safe_witness:
  "well_formed family [''Harry''] [''James''] [''James'']
   \<and> joint_probability family [''Harry''] [''James''] [''James'']
       = Inr (lit 0.0026643247488, [])"
proof -
  have w: "well_formed family [''Harry''] [''James''] [''James'']"
    by (simp add: well_formed_def parents_well_formed_def family_def isin_def)
  have "joint_probability family [''Harry''] [''James''] [''James'']
       = Inr (lit 0.0026643247488, [])"
    by (simp add: joint_probability_def family_def set_minus_def jp_init_def gene_factor_def
        two_genes_factor_def one_gene_factor_def no_genes_factor_def isin_def
        mul_with_trait_def mul_without_trait_def PROBS_gene_def PROBS_trait_def
        PROBS_mutation_def jp_result_def one_minus_mutation_def fl_eval)
  with w joint_probability_safe [OF w] show ?thesis by simp
qed

subsection \<open>load_data\<close>

lemma map_of_fold_load_row:
  "map_of (fold load_row rows data) =
     map_of (map (\<lambda>row. (row_name row,
         \<lparr> name = row_name row,
           mother = or_None (row_mother row),
           father = or_None (row_father row),
           trait = (if row_trait row = ''1'' then Some True
                    else if row_trait row = ''0'' then Some False else None) \<rparr>)) (rev rows)
       @ data)"
proof (induction rows arbitrary: data)
  case Nil
  then show ?case by simp
next
  case (Cons row rows)
  show ?case
    by (simp add: Cons.IH) (simp add: load_row_def update_conv' map_add_def fun_eq_iff)
qed

lemma keys_fold_load_row:
  "distinct (map fst data) \<Longrightarrow>
   distinct (map fst (fold load_row rows data))
   \<and> set (map fst (fold load_row rows data)) = row_name ` set rows \<union> set (map fst data)"
proof (induction rows arbitrary: data)
  case Nil
  then show ?case by simp
next
  case (Cons row rows)
  have d: "distinct (map fst (load_row row data))"
    using Cons.prems by (simp add: load_row_def distinct_update)
  have k: "set (map fst (load_row row data)) = insert (row_name row) (set (map fst data))"
    by (auto simp: load_row_def AList.update_keys)
  from Cons.IH [OF d] k show ?case by auto
qed

text \<open>
  C10, as the code has it. \<open>load_data\<close> checks nothing: for every list of rows it returns
  a dictionary with one entry for each name that occurs, the entry of a name being built
  from the last row of that name, with the mother and the father as the row gives them
  (\<open>None\<close> when blank) and the trait \<open>True\<close> for \<open>1\<close>, \<open>False\<close> for \<open>0\<close> and \<open>None\<close>
  otherwise.
\<close>

theorem load_data_no_validation:
  "map_of (load_data rows) =
     map_of (map (\<lambda>row. (row_name row,
         \<lparr> name = row_name row,
           mother = or_None (row_mother row),
           father = or_None (row_father row),
           trait = (if row_trait row = ''1'' then Some True
                    else if row_trait row = ''0'' then Some False else None) \<rparr>)) (rev rows))
   \<and> distinct (map fst (load_data rows))
   \<and> set (map fst (load_data rows)) = row_name ` set rows"
  using map_of_fold_load_row [of rows "[]"] keys_fold_load_row [of "[]" rows]
  by (simp add: load_data_def)

text \<open>
  C10, as stated, fails. A row with a mother and no father is loaded without any error,
  the pedigree handed to the inference is not well formed, and the failure appears only
  inside the inference, as the \<open>TypeError\<close> of \<open>joint_probability\<close>; a row whose
  parents name no record is loaded as well.
\<close>

theorem load_data_accepts_malformed:
  "load_data [\<lparr>row_name = ''Harry'', row_mother = ''Lily'', row_father = '''', row_trait = ''''\<rparr>]
     = [(''Harry'', \<lparr>name = ''Harry'', mother = Some ''Lily'', father = None, trait = None\<rparr>)]
   \<and> \<not> parents_well_formed
       (load_data [\<lparr>row_name = ''Harry'', row_mother = ''Lily'', row_father = '''', row_trait = ''''\<rparr>])
   \<and> main_infer
       (load_data [\<lparr>row_name = ''Harry'', row_mother = ''Lily'', row_father = '''', row_trait = ''''\<rparr>])
     = Inl TypeError
   \<and> load_data [\<lparr>row_name = ''Harry'', row_mother = ''Lily'', row_father = ''James'',
                  row_trait = ''1''\<rparr>]
     = [(''Harry'', \<lparr>name = ''Harry'', mother = Some ''Lily'', father = Some ''James'',
                     trait = Some True\<rparr>)]
   \<and> \<not> parents_well_formed
       (load_data [\<lparr>row_name = ''Harry'', row_mother = ''Lily'', row_father = ''James'',
                    row_trait = ''1''\<rparr>])"
proof -
  have l1: "load_data [\<lparr>row_name = ''Harry'', row_mother = ''Lily'', row_father = '''', row_trait = ''''\<rparr>]
     = [(''Harry'', \<lparr>name = ''Harry'', mother = Some ''Lily'', father = None, trait = None\<rparr>)]"
    by (simp add: load_data_def load_row_def or_None_def)
  have l2: "load_data [\<lparr>row_name = ''Harry'', row_mother = ''Lily'', row_father = ''James'',
                  row_trait = ''1''\<rparr>]
     = [(''Harry'', \<lparr>name = ''Harry'', mother = Some ''Lily'', father = Some ''James'',
                     trait = Some True\<rparr>)]"
    by (simp add: load_data_def load_row_def or_None_def)
  have jp: "joint_probability
      [(''Harry'', \<lparr>name = ''Harry'', mother = Some ''Lily'', father = None, trait = None\<rparr>)]
      [] [] [] = Inl TypeError"
    by (simp add: joint_probability_def set_minus_def jp_init_def gene_factor_def
        no_genes_factor_def isin_def)
  have m: "main_infer
      [(''Harry'', \<lparr>name = ''Harry'', mother = Some ''Lily'', father = None, trait = None\<rparr>)]
      = Inl TypeError"
    by (simp add: main_infer_def main_accumulate_def Let_def powerset_Nil powerset_single
        have_trait_step_def gene_loops_def set_minus_def score_def jp)
  show ?thesis
    unfolding l1 l2 using m
    by (simp add: parents_well_formed_def isin_def)
qed

subsection \<open>normalize raises on a zero total\<close>

lemma fdiv_zero [simp]: "fdiv a (Finite 0) = Inl ZeroDivisionError"
  by (simp add: fdiv_def)

lemma fdiv_nonzero: "b \<noteq> Finite 0 \<Longrightarrow> fdiv a b = Inr (fquot a b)"
  by (simp add: fdiv_def)

lemma is_positive_nonzero: "is_positive a \<Longrightarrow> a \<noteq> Finite 0"
  by (auto simp: is_positive_def)

lemma normalize_gene_zero: "gene_total b = Finite 0 \<Longrightarrow> normalize_gene b = Inl ZeroDivisionError"
  by (simp add: normalize_gene_def)

lemma normalize_gene_nonzero:
  "gene_total b \<noteq> Finite 0 \<Longrightarrow>
   normalize_gene b =
     Inr (b\<lparr>gene2 := fquot (fmul (gene2 b) (Finite 1)) (gene_total b),
            gene1 := fquot (fmul (gene1 b) (Finite 1)) (gene_total b),
            gene0 := fquot (fmul (gene0 b) (Finite 1)) (gene_total b)\<rparr>)"
  by (simp add: normalize_gene_def fdiv_nonzero Let_def)

lemma normalize_trait_zero:
  "trait_total b = Finite 0 \<Longrightarrow> normalize_trait b = Inl ZeroDivisionError"
  by (simp add: normalize_trait_def)

lemma normalize_trait_nonzero:
  "trait_total b \<noteq> Finite 0 \<Longrightarrow>
   normalize_trait b =
     Inr (b\<lparr>trait_True := fquot (fmul (trait_True b) (Finite 1)) (trait_total b),
            trait_False := fquot (fmul (trait_False b) (Finite 1)) (trait_total b)\<rparr>)"
  by (simp add: normalize_trait_def fdiv_nonzero Let_def)

lemma trait_total_gene_update [simp]:
  "trait_total (b\<lparr>gene2 := x, gene1 := y, gene0 := z\<rparr>) = trait_total b"
  by (simp add: trait_total_def)

lemma normalize_person_zero:
  "gene_total b = Finite 0 \<or> trait_total b = Finite 0 \<Longrightarrow>
   normalize_person b = Inl ZeroDivisionError"
  by (cases "gene_total b = Finite 0")
    (auto simp: normalize_person_def normalize_gene_zero normalize_gene_nonzero
      normalize_trait_zero)

lemma normalize_person_nonzero:
  "gene_total b \<noteq> Finite 0 \<Longrightarrow> trait_total b \<noteq> Finite 0 \<Longrightarrow>
   normalize_person b =
     Inr \<lparr> gene2 = fquot (fmul (gene2 b) (Finite 1)) (gene_total b),
           gene1 = fquot (fmul (gene1 b) (Finite 1)) (gene_total b),
           gene0 = fquot (fmul (gene0 b) (Finite 1)) (gene_total b),
           trait_True = fquot (fmul (trait_True b) (Finite 1)) (trait_total b),
           trait_False = fquot (fmul (trait_False b) (Finite 1)) (trait_total b) \<rparr>"
  by (simp add: normalize_person_def normalize_gene_nonzero normalize_trait_nonzero)

lemma normalize_zero_total:
  "(person, b) \<in> set probs \<Longrightarrow> gene_total b = Finite 0 \<or> trait_total b = Finite 0 \<Longrightarrow>
   normalize_probs probs = Inl ZeroDivisionError"
proof (induction probs)
  case Nil
  then show ?case by simp
next
  case (Cons pb probs)
  obtain q c where pb: "pb = (q, c)" by (cases pb)
  show ?case
  proof (cases "gene_total c = Finite 0 \<or> trait_total c = Finite 0")
    case True
    then show ?thesis using pb by (simp add: normalize_person_zero)
  next
    case False
    then have "(person, b) \<in> set probs" using Cons.prems pb by auto
    then have "normalize_probs probs = Inl ZeroDivisionError" using Cons by simp
    then show ?thesis using False pb by (simp add: normalize_person_nonzero)
  qed
qed

lemma normalize_nonzero_totals:
  "(\<forall>(person, b) \<in> set probs. gene_total b \<noteq> Finite 0 \<and> trait_total b \<noteq> Finite 0) \<Longrightarrow>
   \<exists>probs'. normalize_probs probs = Inr probs' \<and> map fst probs' = map fst probs"
proof (induction probs)
  case Nil
  then show ?case by simp
next
  case (Cons pb probs)
  obtain q c where pb: "pb = (q, c)" by (cases pb)
  from Cons.prems pb have nz: "gene_total c \<noteq> Finite 0" "trait_total c \<noteq> Finite 0" by auto
  from Cons obtain rest' where r: "normalize_probs probs = Inr rest'"
    "map fst rest' = map fst probs" by auto
  show ?case using pb nz r by (simp add: normalize_person_nonzero)
qed

text \<open>
  C9. If some person's gene total or trait total is zero, \<open>normalize\<close> raises (the
  division raises \<open>ZeroDivisionError\<close>, no default value is substituted); if every total
  is positive, it returns a belief state for the same persons.
\<close>

theorem normalize_zero_total_raises:
  "((\<exists>(person, b) \<in> set probs. gene_total b = Finite 0 \<or> trait_total b = Finite 0)
      \<longrightarrow> normalize_probs probs = Inl ZeroDivisionError)
   \<and> ((\<forall>(person, b) \<in> set probs. is_positive (gene_total b) \<and> is_positive (trait_total b))
      \<longrightarrow> (\<exists>probs'. normalize_probs probs = Inr probs' \<and> map fst probs' = map fst probs))"
proof (intro conjI impI)
  assume "\<exists>(person, b) \<in> set probs. gene_total b = Finite 0 \<or> trait_total b = Finite 0"
  then show "normalize_probs probs = Inl ZeroDivisionError"
    by (auto intro: normalize_zero_total)
next
  assume "\<forall>(person, b) \<in> set probs. is_positive (gene_total b) \<and> is_positive (trait_total b)"
  then have "\<forall>(person, b) \<in> set probs. gene_total b \<noteq> Finite 0 \<and> trait_total b \<noteq> Finite 0"
    by (fastforce dest: is_positive_nonzero)
  then show "\<exists>probs'. normalize_probs probs = Inr probs' \<and> map fst probs' = map fst probs"
    by (rule normalize_nonzero_totals)
qed

theorem normalize_zero_total_raises_witness:
  "gene_total \<lparr>gene2 = Finite 0, gene1 = Finite 0, gene0 = Finite 0,
               trait_True = Finite 0, trait_False = Finite 0\<rparr> = Finite 0
   \<and> normalize_probs
     [(''Harry'', \<lparr>gene2 = Finite 0, gene1 = Finite 0, gene0 = Finite 0,
                   trait_True = Finite 0, trait_False = Finite 0\<rparr>)]
     = Inl ZeroDivisionError
   \<and> is_positive (gene_total \<lparr>gene2 = Finite 1, gene1 = Finite 2, gene0 = Finite 5,
               trait_True = Finite 3, trait_False = Finite 1\<rparr>)
   \<and> is_positive (trait_total \<lparr>gene2 = Finite 1, gene1 = Finite 2, gene0 = Finite 5,
               trait_True = Finite 3, trait_False = Finite 1\<rparr>)
   \<and> (\<exists>probs'. normalize_probs
     [(''Harry'', \<lparr>gene2 = Finite 1, gene1 = Finite 2, gene0 = Finite 5,
                   trait_True = Finite 3, trait_False = Finite 1\<rparr>)]
     = Inr probs')"
proof -
  have z: "gene_total \<lparr>gene2 = Finite 0, gene1 = Finite 0, gene0 = Finite 0,
               trait_True = Finite 0, trait_False = Finite 0\<rparr> = Finite 0"
    by (simp add: gene_total_def fl_eval)
  have p: "is_positive (gene_total \<lparr>gene2 = Finite 1, gene1 = Finite 2, gene0 = Finite 5,
               trait_True = Finite 3, trait_False = Finite 1\<rparr>)"
    "is_positive (trait_total \<lparr>gene2 = Finite 1, gene1 = Finite 2, gene0 = Finite 5,
               trait_True = Finite 3, trait_False = Finite 1\<rparr>)"
    by (simp_all add: gene_total_def trait_total_def is_positive_def fl_eval)
  show ?thesis
    using z p normalize_zero_total_raises
      [of "[(''Harry'', \<lparr>gene2 = Finite 0, gene1 = Finite 0, gene0 = Finite 0,
                   trait_True = Finite 0, trait_False = Finite 0\<rparr>)]"]
      normalize_zero_total_raises
      [of "[(''Harry'', \<lparr>gene2 = Finite 1, gene1 = Finite 2, gene0 = Finite 5,
                   trait_True = Finite 3, trait_False = Finite 1\<rparr>)]"]
    by auto
qed

subsection \<open>The gene-count factor against the closed form\<close>

text \<open>The definitions that evaluate \<open>joint_probability\<close> on a given pedigree.\<close>

lemmas jp_eval = joint_probability_def set_minus_def jp_init_def gene_factor_def
  two_genes_factor_def one_gene_factor_def no_genes_factor_def isin_def
  mul_with_trait_def mul_without_trait_def PROBS_gene_def PROBS_trait_def
  PROBS_mutation_def jp_result_def one_minus_mutation_def

text \<open>The entries of the three tables that differ from the closed form, with
  \<open>one_gene = {O}\<close>, \<open>two_genes = {T}\<close> and \<open>set_no_genes = {N}\<close>, and one that agrees.\<close>

lemma code_table_two:
  "gene_factor 2 (Some ''T'') (Some ''T'') [''O''] [''T''] [''N''] = Inr (lit 1.98)"
  "gene_factor 2 (Some ''O'') (Some ''O'') [''O''] [''T''] [''N''] = Inr (lit 0.99)"
  "gene_factor 2 (Some ''O'') (Some ''N'') [''O''] [''T''] [''N''] = Inr (lit 0.00495)"
  "gene_factor 2 (Some ''N'') (Some ''O'') [''O''] [''T''] [''N''] = Inr (lit 0.00495)"
  "gene_factor 2 (Some ''O'') (Some ''T'') [''O''] [''T''] [''N''] = Inr (lit 0.49005)"
  "gene_factor 2 (Some ''T'') (Some ''O'') [''O''] [''T''] [''N''] = Inr (lit 0.49005)"
  by (simp_all add: jp_eval fl_eval)

lemma code_table_one:
  "gene_factor 1 (Some ''T'') (Some ''T'') [''O''] [''T''] [''N''] = Inr (Finite 1)"
  "gene_factor 1 (Some ''O'') (Some ''N'') [''O''] [''T''] [''N''] = Inr (lit 0.495)"
  "gene_factor 1 (Some ''N'') (Some ''O'') [''O''] [''T''] [''N''] = Inr (lit 0.495)"
  "gene_factor 1 (Some ''O'') (Some ''O'') [''O''] [''T''] [''N''] = Inr (lit 0.49005)"
  "gene_factor 1 (Some ''O'') (Some ''T'') [''O''] [''T''] [''N''] = Inr (lit 0.9801)"
  "gene_factor 1 (Some ''T'') (Some ''O'') [''O''] [''T''] [''N''] = Inr (lit 0.9801)"
  by (simp_all add: jp_eval fl_eval)

lemma code_table_no:
  "gene_factor 0 (Some ''O'') (Some ''O'') [''O''] [''T''] [''N''] = Inr (lit 0.245025)"
  "gene_factor 0 (Some ''O'') (Some ''T'') [''O''] [''T''] [''N''] = Inr (lit 0.00495)"
  "gene_factor 0 (Some ''T'') (Some ''O'') [''O''] [''T''] [''N''] = Inr (lit 0.00495)"
  "gene_factor 0 (Some ''N'') (Some ''N'') [''O''] [''T''] [''N''] = Inr (lit 0.9801)"
  by (simp_all add: jp_eval fl_eval)

lemma code_joint:
  "joint_probability family [] [''Harry'', ''James'', ''Lily''] []
       = Inr (lit (8.489249999999998 / 10 ^ 6), [])"
  by (simp add: jp_eval family_def fl_eval)

lemma lit_198: "lit 1.98 = Finite (4458563631096791 / 2 ^ 51)"
  by (simp add: fl_eval)

text \<open>
  C1. The closed form asks for the factor \<open>0.99 * 0.99 = 0.9801\<close> for a child with two
  copies whose parents both have two copies. At line 160 the code computes
  \<open>2 * (1 - 0.01)\<close>, the double \<open>1.98\<close>, which is no probability, and \<open>joint_probability\<close>
  returns the product built from it (\<open>8.489249999999998e-06\<close> for the family in which
  all three have two copies and nobody has the trait). With \<open>one_gene = {O}\<close>,
  \<open>two_genes = {T}\<close> and \<open>set_no_genes = {N}\<close>, these are the fifteen of the twenty-seven
  cases in which the code's factor differs from the closed form; in the other twelve,
  among them a child with no copy whose parents have none (\<open>0.9801\<close>), the two agree up
  to rounding.
\<close>

theorem gene_factor_differs_from_closed_form:
  "gene_factor 2 (Some ''T'') (Some ''T'') [''O''] [''T''] [''N''] = Inr (lit 1.98)
   \<and> lit 1.98 = Finite (4458563631096791 / 2 ^ 51)
   \<and> closed_form 2 2 2 = 9801 / 10000
   \<and> joint_probability family [] [''Harry'', ''James'', ''Lily''] []
       = Inr (lit (8.489249999999998 / 10 ^ 6), [])
   \<and> gene_factor 2 (Some ''O'') (Some ''O'') [''O''] [''T''] [''N''] = Inr (lit 0.99)
   \<and> closed_form 2 1 1 = 1 / 4
   \<and> gene_factor 2 (Some ''O'') (Some ''N'') [''O''] [''T''] [''N''] = Inr (lit 0.00495)
   \<and> gene_factor 2 (Some ''N'') (Some ''O'') [''O''] [''T''] [''N''] = Inr (lit 0.00495)
   \<and> closed_form 2 1 0 = 1 / 200 \<and> closed_form 2 0 1 = 1 / 200
   \<and> gene_factor 2 (Some ''O'') (Some ''T'') [''O''] [''T''] [''N''] = Inr (lit 0.49005)
   \<and> gene_factor 2 (Some ''T'') (Some ''O'') [''O''] [''T''] [''N''] = Inr (lit 0.49005)
   \<and> closed_form 2 1 2 = 99 / 200 \<and> closed_form 2 2 1 = 99 / 200
   \<and> gene_factor 1 (Some ''T'') (Some ''T'') [''O''] [''T''] [''N''] = Inr (Finite 1)
   \<and> closed_form 1 2 2 = 99 / 5000
   \<and> gene_factor 1 (Some ''O'') (Some ''N'') [''O''] [''T''] [''N''] = Inr (lit 0.495)
   \<and> gene_factor 1 (Some ''N'') (Some ''O'') [''O''] [''T''] [''N''] = Inr (lit 0.495)
   \<and> closed_form 1 1 0 = 1 / 2 \<and> closed_form 1 0 1 = 1 / 2
   \<and> gene_factor 1 (Some ''O'') (Some ''O'') [''O''] [''T''] [''N''] = Inr (lit 0.49005)
   \<and> closed_form 1 1 1 = 1 / 2
   \<and> gene_factor 1 (Some ''O'') (Some ''T'') [''O''] [''T''] [''N''] = Inr (lit 0.9801)
   \<and> gene_factor 1 (Some ''T'') (Some ''O'') [''O''] [''T''] [''N''] = Inr (lit 0.9801)
   \<and> closed_form 1 1 2 = 1 / 2 \<and> closed_form 1 2 1 = 1 / 2
   \<and> gene_factor 0 (Some ''O'') (Some ''O'') [''O''] [''T''] [''N''] = Inr (lit 0.245025)
   \<and> closed_form 0 1 1 = 1 / 4
   \<and> gene_factor 0 (Some ''O'') (Some ''T'') [''O''] [''T''] [''N''] = Inr (lit 0.00495)
   \<and> gene_factor 0 (Some ''T'') (Some ''O'') [''O''] [''T''] [''N''] = Inr (lit 0.00495)
   \<and> closed_form 0 1 2 = 1 / 200 \<and> closed_form 0 2 1 = 1 / 200
   \<and> gene_factor 0 (Some ''N'') (Some ''N'') [''O''] [''T''] [''N''] = Inr (lit 0.9801)
   \<and> closed_form 0 0 0 = 9801 / 10000"
  by (intro conjI;
      (rule code_table_two code_table_one code_table_no code_joint lit_198
       | simp add: closed_form_def transmit_def mutation_rate_def))

subsection \<open>A single founder\<close>

lemma jp_founder_no:
  "joint_probability [(n, \<lparr>name = nm, mother = None, father = None, trait = t\<rparr>)] [] [] []
   = Inr (lit 0.9503999999999999, [])"
  "joint_probability [(n, \<lparr>name = nm, mother = None, father = None, trait = t\<rparr>)] [] [] [n]
   = Inr (lit 0.0096, [])"
  by (simp_all add: jp_eval fl_eval)

lemma jp_founder_one:
  "joint_probability [(n, \<lparr>name = nm, mother = None, father = None, trait = t\<rparr>)] [n] [] []
   = Inr (lit 0.0132, [])"
  "joint_probability [(n, \<lparr>name = nm, mother = None, father = None, trait = t\<rparr>)] [n] [] [n]
   = Inr (lit 0.016800000000000002, [])"
  by (simp_all add: jp_eval fl_eval)

lemma jp_founder_two:
  "joint_probability [(n, \<lparr>name = nm, mother = None, father = None, trait = t\<rparr>)] [] [n] []
   = Inr (lit 0.0034999999999999996, [])"
  "joint_probability [(n, \<lparr>name = nm, mother = None, father = None, trait = t\<rparr>)] [] [n] [n]
   = Inr (lit 0.006500000000000001, [])"
  by (simp_all add: jp_eval fl_eval)

lemmas main_eval = main_accumulate_def Let_def powerset_Nil powerset_single have_trait_step_def
  gene_loops_def set_minus_def score_def update_def update_person_def init_probabilities_def

lemma main_accumulate_founder:
  "main_accumulate [(n, \<lparr>name = nm, mother = None, father = None, trait = None\<rparr>)]
   = Inr [(n, \<lparr>gene2 = lit 0.01, gene1 = lit 0.030000000000000002, gene0 = lit 0.96,
               trait_True = lit 0.0329, trait_False = lit 0.9670999999999998\<rparr>)]"
  by (simp add: main_eval jp_founder_no jp_founder_one jp_founder_two) (simp add: fl_eval)


lemma normalize_founder:
  "normalize_probs [(n, \<lparr>gene2 = lit 0.01, gene1 = lit 0.030000000000000002, gene0 = lit 0.96,
               trait_True = lit 0.0329, trait_False = lit 0.9670999999999998\<rparr>)]
   = Inr [(n, \<lparr>gene2 = lit 0.01, gene1 = lit 0.030000000000000002, gene0 = lit 0.96,
               trait_True = lit 0.032900000000000006, trait_False = lit 0.9671\<rparr>)]"
  by (simp add: normalize_person_def normalize_gene_def normalize_trait_def gene_total_def
      trait_total_def fdiv_def fl_eval)


lemma lit_003:
  "lit 0.030000000000000002 = Finite (8646911284551353 / 2 ^ 58)"
  "lit 0.03 = Finite (8646911284551352 / 2 ^ 58)"
  "lit 0.01 = Finite (5764607523034235 / 2 ^ 59)"
  "lit 0.96 = Finite (8646911284551352 / 2 ^ 53)"
  by (simp_all add: fl_eval)

text \<open>
  C3, as the code has it. For a pedigree of one founder with no observed trait, whatever
  the name, the whole pipeline returns for no copy the double \<open>0.96\<close> and for two copies
  the double \<open>0.01\<close>, which are the prior, and for one copy the double
  \<open>0.030000000000000002\<close>: the sum of \<open>0.03 * 0.44\<close> and \<open>0.03 * 0.56\<close> in doubles, one
  unit in the last place above the prior \<open>0.03\<close>, that is within \<open>4e-18\<close> of it.
\<close>

theorem founder_posterior_near_prior:
  "main_infer [(n, \<lparr>name = nm, mother = None, father = None, trait = None\<rparr>)]
     = Inr [(n, \<lparr>gene2 = PROBS_gene 2, gene1 = lit 0.030000000000000002,
                 gene0 = PROBS_gene 0,
                 trait_True = lit 0.032900000000000006, trait_False = lit 0.9671\<rparr>)]
   \<and> PROBS_gene 2 = lit 0.01 \<and> PROBS_gene 1 = lit 0.03 \<and> PROBS_gene 0 = lit 0.96
   \<and> lit 0.030000000000000002 = Finite (8646911284551353 / 2 ^ 58)
   \<and> lit 0.03 = Finite (8646911284551352 / 2 ^ 58)
   \<and> \<bar>8646911284551353 / 2 ^ 58 - 3 / 100\<bar> \<le> (4 / 10 ^ 18 :: real)"
proof -
  have "main_infer [(n, \<lparr>name = nm, mother = None, father = None, trait = None\<rparr>)]
     = Inr [(n, \<lparr>gene2 = lit 0.01, gene1 = lit 0.030000000000000002, gene0 = lit 0.96,
                 trait_True = lit 0.032900000000000006, trait_False = lit 0.9671\<rparr>)]"
    unfolding main_infer_def main_accumulate_founder
    by (simp only: sum.case normalize_founder)
  moreover have "PROBS_gene 2 = lit 0.01" "PROBS_gene 1 = lit 0.03" "PROBS_gene 0 = lit 0.96"
    by (simp_all add: PROBS_gene_def)
  moreover have "\<bar>8646911284551353 / 2 ^ 58 - 3 / 100\<bar> \<le> (4 / 10 ^ 18 :: real)"
    by simp
  ultimately show ?thesis using lit_003(1,2) by (simp only:)
qed

text \<open>
  C3, as stated, fails: for the founder \<open>Harry\<close> the posterior of one copy is not the
  prior \<open>0.03\<close>.
\<close>

theorem founder_posterior_not_exact:
  "main_infer [(''Harry'', \<lparr>name = ''Harry'', mother = None, father = None, trait = None\<rparr>)]
     = Inr [(''Harry'', \<lparr>gene2 = lit 0.01, gene1 = lit 0.030000000000000002, gene0 = lit 0.96,
                 trait_True = lit 0.032900000000000006, trait_False = lit 0.9671\<rparr>)]
   \<and> lit 0.030000000000000002 \<noteq> PROBS_gene 1"
proof -
  have "main_infer [(''Harry'', \<lparr>name = ''Harry'', mother = None, father = None, trait = None\<rparr>)]
     = Inr [(''Harry'', \<lparr>gene2 = lit 0.01, gene1 = lit 0.030000000000000002, gene0 = lit 0.96,
                 trait_True = lit 0.032900000000000006, trait_False = lit 0.9671\<rparr>)]"
    unfolding main_infer_def main_accumulate_founder
    by (simp only: sum.case normalize_founder)
  moreover have "lit 0.030000000000000002 \<noteq> lit 0.03"
    unfolding lit_003 by simp
  then have "lit 0.030000000000000002 \<noteq> PROBS_gene 1"
    by (simp only: PROBS_gene_def) simp
  ultimately show ?thesis by (rule conjI)
qed

subsection \<open>update\<close>

lemma accumulated_Nil [simp]: "accumulated person b [] = b"
  by (simp add: accumulated_def addends_def fsum_def)

lemma addends_Cons:
  "addends person k ((h, p) # scored)
     = (if receives person h k then p # addends person k scored else addends person k scored)"
  by (simp add: addends_def)

lemma fsum_Cons [simp]: "fsum a (p # ps) = fsum (fadd a p) ps"
  by (simp add: fsum_def)

lemma receives_simps:
  "receives person (one_gene, two_genes, have_trait) Gene1 = (person \<in> set one_gene)"
  "receives person (one_gene, two_genes, have_trait) Gene2
     = (person \<notin> set one_gene \<and> person \<in> set two_genes)"
  "receives person (one_gene, two_genes, have_trait) Gene0
     = (person \<notin> set one_gene \<and> person \<notin> set two_genes)"
  "receives person (one_gene, two_genes, have_trait) Trait_True = (person \<in> set have_trait)"
  "receives person (one_gene, two_genes, have_trait) Trait_False = (person \<notin> set have_trait)"
  by (simp_all add: receives_def)

lemma accumulated_Cons:
  "accumulated person b (((one_gene, two_genes, have_trait), p) # scored)
     = accumulated person (update_person one_gene two_genes have_trait p person b) scored"
  unfolding accumulated_def addends_Cons receives_simps update_person_def
  by (cases "person \<in> set one_gene"; cases "person \<in> set two_genes";
      cases "person \<in> set have_trait"; simp)


lemma update_all_Cons:
  "update_all probs (((one_gene, two_genes, have_trait), p) # scored)
     = update_all (update probs one_gene two_genes have_trait p) scored"
  by (simp add: update_all_def)

lemma update_all_accumulated:
  "update_all probs scored = map (\<lambda>(person, b). (person, accumulated person b scored)) probs"
proof (induction scored arbitrary: probs)
  case Nil
  have "map (\<lambda>(person, b). (person, accumulated person b [])) probs = probs"
    by (induction probs) auto
  then show ?case by (simp add: update_all_def)
next
  case (Cons x scored)
  obtain one_gene two_genes have_trait p where x: "x = ((one_gene, two_genes, have_trait), p)"
    by (cases x) auto
  have "update_all probs (x # scored)
      = update_all (update probs one_gene two_genes have_trait p) scored"
    unfolding x by (rule update_all_Cons)
  also have "\<dots> = map (\<lambda>(person, b). (person, accumulated person b scored))
      (update probs one_gene two_genes have_trait p)"
    by (rule Cons.IH)
  also have "\<dots> = map (\<lambda>(person, b). (person, accumulated person b (x # scored))) probs"
  proof (induction probs)
    case Nil
    then show ?case by (simp add: update_def)
  next
    case (Cons pb probs)
    obtain person b where pb: "pb = (person, b)" by (cases pb)
    have "accumulated person (update_person one_gene two_genes have_trait p person b) scored
        = accumulated person b (x # scored)"
      unfolding x by (rule accumulated_Cons [symmetric])
    with Cons show ?case by (simp add: update_def pb)
  qed
  finally show ?case .
qed

lemma mset_addends:
  assumes "mset scored = mset scored'"
  shows "mset (addends person k scored) = mset (addends person k scored')"
proof -
  have "mset (addends person k xs)
      = image_mset snd (filter_mset (\<lambda>(h, p). receives person h k) (mset xs))" for xs
    by (simp add: addends_def)
  with assms show ?thesis by simp
qed

text \<open>
  C7, as the code has it. Folding two lists of scored hypotheses that are permutations of
  each other into the same belief state with \<open>update\<close> leaves in every bucket of every
  person the floating-point sum, from left to right, of the bucket's start value and of
  the values the bucket receives, and every bucket receives the same values in both
  orders, as a multiset. The totals therefore agree up to the rounding of the additions;
  they need not be equal, since the addition of doubles is not associative.
\<close>

theorem update_same_addends:
  fixes scored scored' :: "(hypothesis \<times> pyfloat) list"
  assumes "mset scored = mset scored'"
  shows "update_all probs scored
           = map (\<lambda>(person, b). (person, accumulated person b scored)) probs
       \<and> update_all probs scored'
           = map (\<lambda>(person, b). (person, accumulated person b scored')) probs
       \<and> (\<forall>person k. mset (addends person k scored) = mset (addends person k scored'))"
  using assms mset_addends [OF assms] by (simp add: update_all_accumulated)

text \<open>The scores of the three hypotheses of a lone founder without the trait, folded in
  two orders.\<close>

lemma order_A:
  "update_all
     [(''Harry'', \<lparr>gene2 = Finite 0, gene1 = Finite 0, gene0 = Finite 0,
                   trait_True = Finite 0, trait_False = Finite 0\<rparr>)]
     [(([], [], []), lit 0.9503999999999999),
      (([], [''Harry''], []), lit 0.0034999999999999996),
      (([''Harry''], [], []), lit 0.0132)]
   = [(''Harry'', \<lparr>gene2 = lit 0.0034999999999999996, gene1 = lit 0.0132,
                     gene0 = lit 0.9503999999999999,
                     trait_True = Finite 0, trait_False = lit 0.9670999999999998\<rparr>)]"
  by (simp add: update_all_def update_def update_person_def fl_eval)

lemma order_B:
  "update_all
     [(''Harry'', \<lparr>gene2 = Finite 0, gene1 = Finite 0, gene0 = Finite 0,
                   trait_True = Finite 0, trait_False = Finite 0\<rparr>)]
     [(([], [''Harry''], []), lit 0.0034999999999999996),
      (([''Harry''], [], []), lit 0.0132),
      (([], [], []), lit 0.9503999999999999)]
   = [(''Harry'', \<lparr>gene2 = lit 0.0034999999999999996, gene1 = lit 0.0132,
                     gene0 = lit 0.9503999999999999,
                     trait_True = Finite 0, trait_False = lit 0.9671\<rparr>)]"
  by (simp add: update_all_def update_def update_person_def fl_eval)

lemma lit_9671:
  "lit 0.9670999999999998 = Finite (2177715599815003 / 2 ^ 51)"
  "lit 0.9671 = Finite (8710862399260013 / 2 ^ 53)"
  by (simp_all add: fl_eval)

theorem update_same_addends_witness:
  "mset [((([], [], []) :: hypothesis), lit 0.9503999999999999),
         (([], [''Harry''], []), lit 0.0034999999999999996),
         (([''Harry''], [], []), lit 0.0132)]
     = mset [(([], [''Harry''], []), lit 0.0034999999999999996),
             (([''Harry''], [], []), lit 0.0132),
             (([], [], []), lit 0.9503999999999999)]
   \<and> mset (addends ''Harry'' Trait_False
        [(([], [], []), lit 0.9503999999999999),
         (([], [''Harry''], []), lit 0.0034999999999999996),
         (([''Harry''], [], []), lit 0.0132)])
     = mset (addends ''Harry'' Trait_False
        [(([], [''Harry''], []), lit 0.0034999999999999996),
         (([''Harry''], [], []), lit 0.0132),
         (([], [], []), lit 0.9503999999999999)])"
proof -
  have m: "mset [((([], [], []) :: hypothesis), lit 0.9503999999999999),
         (([], [''Harry''], []), lit 0.0034999999999999996),
         (([''Harry''], [], []), lit 0.0132)]
     = mset [(([], [''Harry''], []), lit 0.0034999999999999996),
             (([''Harry''], [], []), lit 0.0132),
             (([], [], []), lit 0.9503999999999999)]"
    by simp
  from update_same_addends [OF m] m show ?thesis by blast
qed

text \<open>
  C7, as stated, fails. The three hypotheses of the lone founder \<open>Harry\<close> without the
  trait, with the joint probabilities the code computes for them, leave
  \<open>0.9670999999999998\<close> in the bucket \<open>trait[False]\<close> when folded in the order of
  \<open>main\<close> and \<open>0.9671\<close> when the first of them is folded last.
\<close>

theorem update_order_matters:
  "joint_probability
     [(''Harry'', \<lparr>name = ''Harry'', mother = None, father = None, trait = None\<rparr>)] [] [] []
     = Inr (lit 0.9503999999999999, [])
   \<and> joint_probability
     [(''Harry'', \<lparr>name = ''Harry'', mother = None, father = None, trait = None\<rparr>)]
     [] [''Harry''] []
     = Inr (lit 0.0034999999999999996, [])
   \<and> joint_probability
     [(''Harry'', \<lparr>name = ''Harry'', mother = None, father = None, trait = None\<rparr>)]
     [''Harry''] [] []
     = Inr (lit 0.0132, [])
   \<and> mset [((([], [], []) :: hypothesis), lit 0.9503999999999999),
         (([], [''Harry''], []), lit 0.0034999999999999996),
         (([''Harry''], [], []), lit 0.0132)]
     = mset [(([], [''Harry''], []), lit 0.0034999999999999996),
             (([''Harry''], [], []), lit 0.0132),
             (([], [], []), lit 0.9503999999999999)]
   \<and> update_all
     [(''Harry'', \<lparr>gene2 = Finite 0, gene1 = Finite 0, gene0 = Finite 0,
                   trait_True = Finite 0, trait_False = Finite 0\<rparr>)]
     [(([], [], []), lit 0.9503999999999999),
      (([], [''Harry''], []), lit 0.0034999999999999996),
      (([''Harry''], [], []), lit 0.0132)]
     = [(''Harry'', \<lparr>gene2 = lit 0.0034999999999999996, gene1 = lit 0.0132,
                     gene0 = lit 0.9503999999999999,
                     trait_True = Finite 0, trait_False = lit 0.9670999999999998\<rparr>)]
   \<and> update_all
     [(''Harry'', \<lparr>gene2 = Finite 0, gene1 = Finite 0, gene0 = Finite 0,
                   trait_True = Finite 0, trait_False = Finite 0\<rparr>)]
     [(([], [''Harry''], []), lit 0.0034999999999999996),
      (([''Harry''], [], []), lit 0.0132),
      (([], [], []), lit 0.9503999999999999)]
     = [(''Harry'', \<lparr>gene2 = lit 0.0034999999999999996, gene1 = lit 0.0132,
                     gene0 = lit 0.9503999999999999,
                     trait_True = Finite 0, trait_False = lit 0.9671\<rparr>)]
   \<and> lit 0.9670999999999998 \<noteq> lit 0.9671"
proof -
  have "lit 0.9670999999999998 \<noteq> lit 0.9671"
    unfolding lit_9671 by simp
  moreover have "mset [((([], [], []) :: hypothesis), lit 0.9503999999999999),
         (([], [''Harry''], []), lit 0.0034999999999999996),
         (([''Harry''], [], []), lit 0.0132)]
     = mset [(([], [''Harry''], []), lit 0.0034999999999999996),
             (([''Harry''], [], []), lit 0.0132),
             (([], [], []), lit 0.9503999999999999)]"
    by simp
  ultimately show ?thesis
    using jp_founder_no(1) [of "''Harry''" "''Harry''" None]
      jp_founder_two(1) [of "''Harry''" "''Harry''" None]
      jp_founder_one(1) [of "''Harry''" "''Harry''" None]
      order_A order_B
    by (intro conjI)
qed

subsection \<open>The totals before normalization\<close>



lemma filter_in_powerset: "filter P xs \<in> set (powerset xs)"
  unfolding set_powerset by (induction xs) (auto simp: Let_def)


text \<open>The persons observed with the trait form a consistent subset.\<close>

lemma observed_consistent:
  "evidence_consistent people names
     (filter (\<lambda>person. case map_of people person of
                None \<Rightarrow> False | Some r \<Rightarrow> trait r = Some True) names)"
  by (auto simp: evidence_consistent_def split: option.splits)

lemma hypotheses_not_Nil: "hypotheses people \<noteq> []"
proof -
  let ?names = "map fst people"
  let ?ht = "filter (\<lambda>person. case map_of people person of
                None \<Rightarrow> False | Some r \<Rightarrow> trait r = Some True) ?names"
  have 1: "?ht \<in> set (filter (evidence_consistent people ?names) (powerset ?names))"
    using filter_in_powerset [of _ ?names] observed_consistent [of people ?names] by simp
  have 2: "[] \<in> set (powerset ?names)"
    using filter_in_powerset [of "\<lambda>x. False" ?names] by simp
  have 3: "[] \<in> set (powerset (set_minus ?names []))"
    using filter_in_powerset [of "\<lambda>x. False" "set_minus ?names []"] by simp
  have "([], [], ?ht) \<in> set (hypotheses people)"
    unfolding hypotheses_def Let_def using 1 2 3 by fastforce
  then show ?thesis by auto
qed










end
